theory Spec2Isabelle
  imports Complex_Main
begin

section \<open>Python values and failures\<close>

text \<open>
  The two pages of the application, \<^verbatim>\<open>Lite.py\<close> and \<^verbatim>\<open>pages/Pro.py\<close>, are Streamlit
  scripts. Their "Optimize Now" handlers build an address list per vehicle (Lite) or
  per route (Pro), obtain a distance matrix, call \<^verbatim>\<open>solve_vrp(matrix, 1)\<close> and turn the
  returned node indices into the figures shown to the user.

  The solver \<^verbatim>\<open>fleet_optimizer.solve_vrp\<close>, the geocoder \<^verbatim>\<open>gmaps.geocode\<close> and the
  provider call \<^verbatim>\<open>gmaps.distance_matrix\<close> are not part of the two scripts. They are
  parameters of the model: every theorem below holds for every solver, geocoder and
  provider.

  An exception is a value of type \<open>py_error\<close>; a computation that may raise returns
  \<open>py_error + 'a\<close>. The exceptions Python itself raises in the two handlers are
  TypeError (subscripting None), IndexError (a list index out of range) and KeyError
  (a missing dictionary key); \<open>External\<close> stands for any exception raised inside the
  solver, the geocoder or the provider.
\<close>

datatype py_error =
    TypeError
  | IndexError
  | KeyError
  | External string

text \<open>
  \<^verbatim>\<open>xs[i]\<close> on a list: a negative index counts from the end, an index out of range
  raises IndexError.
\<close>

definition norm_index :: "nat \<Rightarrow> int \<Rightarrow> int" where
  "norm_index n i = (if i < 0 then i + int n else i)"

definition subscript :: "'a list \<Rightarrow> int \<Rightarrow> py_error + 'a" where
  "subscript xs i =
     (if 0 \<le> norm_index (length xs) i \<and> norm_index (length xs) i < int (length xs)
      then Inr (xs ! nat (norm_index (length xs) i))
      else Inl IndexError)"

text \<open>
  A list comprehension \<^verbatim>\<open>[f(x) for x in xs]\<close> whose body may raise: the elements are
  evaluated from left to right and the first exception ends the comprehension.
\<close>

fun comprehension :: "('a \<Rightarrow> py_error + 'b) \<Rightarrow> 'a list \<Rightarrow> py_error + 'b list" where
  "comprehension f [] = Inr []"
| "comprehension f (x # xs) =
     (case f x of
        Inl e \<Rightarrow> Inl e
      | Inr y \<Rightarrow> (case comprehension f xs of Inl e \<Rightarrow> Inl e | Inr ys \<Rightarrow> Inr (y # ys)))"

subsection \<open>Numbers\<close>

text \<open>
  The distances are Python floats; they are modelled as reals, \<^verbatim>\<open>x ** 0.5\<close> as the
  real square root. The built-in \<^verbatim>\<open>round(x, n)\<close> is not defined on reals here: Python
  rounds the binary float it is given, and at a figure that lies halfway between two
  multiples of \<open>10\<^sup>-\<^sup>n\<close> the result depends on how the float division before it fell, so
  no rounding rule on exact reals agrees with it everywhere. \<^verbatim>\<open>round\<close> is therefore a
  parameter of the handlers, named \<open>py_round\<close> below: \<open>py_round x n\<close> stands for
  \<^verbatim>\<open>round(x, n)\<close>, and every theorem holds for every such function.
\<close>

type_synonym rounding = "real \<Rightarrow> nat \<Rightarrow> real"

subsection \<open>Strings\<close>

text \<open>
  A string is a list of characters with code points below 256. \<^verbatim>\<open>str.strip()\<close> removes
  the leading and trailing whitespace; the whitespace code points below 256 are
  9 to 13, 28 to 32, 133 and 160. A string is truthy when it is not empty.
\<close>

definition isspace :: "char \<Rightarrow> bool" where
  "isspace c = (of_char c \<in> {9, 10, 11, 12, 13, 28, 29, 30, 31, 32, 133, 160 :: nat})"

definition lstrip :: "string \<Rightarrow> string" where
  "lstrip s = dropWhile isspace s"

definition rstrip :: "string \<Rightarrow> string" where
  "rstrip s = rev (dropWhile isspace (rev s))"

definition strip :: "string \<Rightarrow> string" where
  "strip s = rstrip (lstrip s)"

text \<open>The spec's wording: an address is blank when it is empty or whitespace only.\<close>

definition blank :: "string \<Rightarrow> bool" where
  "blank s = list_all isspace s"

section \<open>External collaborators\<close>

type_synonym coord = "real \<times> real"

type_synonym matrix = "real list list"

text \<open>
  \<^verbatim>\<open>gmaps.geocode(address)\<close> raises or returns the list of results; a result is kept
  as its \<^verbatim>\<open>['geometry']['location']\<close>, the pair of \<^verbatim>\<open>lat\<close> and \<^verbatim>\<open>lng\<close>.
\<close>

type_synonym gmaps_geocode = "string \<Rightarrow> py_error + coord list"

text \<open>
  \<^verbatim>\<open>solve_vrp(matrix, k)\<close> raises, returns \<^verbatim>\<open>None\<close>, or returns a list of routes, each a
  list of node indices (Python integers).
\<close>

type_synonym solver = "matrix \<Rightarrow> nat \<Rightarrow> py_error + int list list option"

text \<open>
  \<^verbatim>\<open>gmaps.distance_matrix(addresses, addresses, mode="driving")\<close> raises or returns
  rows of elements. An element is kept as its \<^verbatim>\<open>['distance']['value']\<close> (metres, an
  integer) when it has the key \<^verbatim>\<open>'distance'\<close>, and as \<open>None\<close> when it has not: the
  provider leaves the key out for a pair it found no route for.
\<close>

type_synonym element = "int option"

type_synonym gmaps_distance_matrix = "string list \<Rightarrow> py_error + element list list"

text \<open>
  What the page shows: \<^verbatim>\<open>st.success\<close>, \<^verbatim>\<open>st.warning\<close>, \<^verbatim>\<open>st.error\<close>. The warning of
  Lite's \<^verbatim>\<open>geocode_address\<close>, \<^verbatim>\<open>Geocoding error for '<address>': <e>\<close>, is kept as the
  address and the exception it names.
\<close>

datatype ui_msg =
    Success string
  | Warning string
  | Error string
  | Geocoding_warning string py_error

text \<open>
  The trace of a run: the calls made to \<^verbatim>\<open>solve_vrp\<close>, each with its two arguments,
  and the messages shown, both in order.
\<close>

record trace =
  solver_calls :: "(matrix \<times> nat) list"
  messages :: "ui_msg list"

text \<open>A call \<^verbatim>\<open>solve_vrp(m, k)\<close>: what the solver answers, and the call written to the trace.\<close>

definition call_solver ::
  "solver \<Rightarrow> matrix \<Rightarrow> nat \<Rightarrow> 's trace_scheme \<Rightarrow> (py_error + int list list option) \<times> 's trace_scheme"
where
  "call_solver solve_vrp m k st = (solve_vrp m k, st\<lparr>solver_calls := solver_calls st @ [(m, k)]\<rparr>)"

text \<open>
  A stretch of a handler ends with the state it has reached and, when an exception was
  raised that nothing caught, with that exception: the script run ends there.
\<close>

type_synonym 's outcome = "py_error option \<times> 's"

section \<open>Lite.py\<close>

text \<open>
  The body of \<^verbatim>\<open>geocode_address\<close>, run once: the value it returns and the warnings it
  shows. The value is None for an empty or blank address, for an exception of the
  geocoder and for an empty result, otherwise the first result's coordinates; the
  warning is shown in the \<^verbatim>\<open>except\<close> branch only.
\<close>

definition geocode_address :: "gmaps_geocode \<Rightarrow> string \<Rightarrow> coord option \<times> ui_msg list" where
  "geocode_address gm address =
     (if address = [] \<or> strip address = [] then (None, [])
      else (case gm address of
              Inl e \<Rightarrow> (None, [Geocoding_warning address e])
            | Inr [] \<Rightarrow> (None, [])
            | Inr (loc # others) \<Rightarrow> (Some loc, [])))"

text \<open>A stop is the pair of its label and its address.\<close>

type_synonym stop = "string \<times> string"

definition address_list :: "string \<Rightarrow> stop list \<Rightarrow> string list" where
  "address_list depot_address stops =
     depot_address # map snd (filter (\<lambda>(lbl, addr). strip addr \<noteq> []) stops)"

definition label_list :: "stop list \<Rightarrow> string list" where
  "label_list stops =
     ''Depot'' # map fst (filter (\<lambda>(lbl, addr). strip addr \<noteq> []) stops)"

text \<open>
  One entry of \<^verbatim>\<open>dist_matrix\<close>: 0 on the diagonal without looking at the coordinates,
  otherwise the straight-line distance of the two coordinates times 111. Subscripting
  a coordinate that is None raises TypeError.
\<close>

definition cell :: "coord option list \<Rightarrow> nat \<Rightarrow> nat \<Rightarrow> py_error + real" where
  "cell coords i j =
     (if i = j then Inr 0
      else (case coords ! i of
              None \<Rightarrow> Inl TypeError
            | Some ci \<Rightarrow>
                (case coords ! j of
                   None \<Rightarrow> Inl TypeError
                 | Some cj \<Rightarrow>
                     Inr (sqrt ((fst ci - fst cj)\<^sup>2 + (snd ci - snd cj)\<^sup>2) * 111))))"

definition dist_matrix :: "coord option list \<Rightarrow> py_error + matrix" where
  "dist_matrix coords =
     comprehension
       (\<lambda>i. comprehension (\<lambda>j. cell coords i j) [0..<length coords])
       [0..<length coords]"

text \<open>
  \<^verbatim>\<open>sum(dist_matrix[path[i]][path[i+1]] for i in range(len(path)-1))\<close>, used by both
  pages.
\<close>

definition total_dist :: "matrix \<Rightarrow> int list \<Rightarrow> py_error + real" where
  "total_dist m path =
     (case comprehension
             (\<lambda>i. case subscript m (path ! i) of
                     Inl e \<Rightarrow> Inl e
                   | Inr row \<Rightarrow> subscript row (path ! (i + 1)))
             [0..<length path - 1] of
        Inl e \<Rightarrow> Inl e
      | Inr costs \<Rightarrow> Inr (sum_list costs))"

datatype score = Underused | Light | Medium | Heavy | No_route

record stats =
  distance :: real
  time :: real
  score :: score

text \<open>
  The state of a run of Lite: the trace, the three result lists of the session, and the
  addresses held by the cache of \<^verbatim>\<open>geocode_address\<close>, the most recently used first.
\<close>

record lite_state = trace +
  route_paths :: "string list list"
  route_addresses :: "string list list"
  route_stats :: "stats list"
  geocode_cache :: "string list"

text \<open>
  A call of \<^verbatim>\<open>geocode_address\<close> through its decorator \<^verbatim>\<open>@lru_cache(maxsize=100)\<close>. For an
  address in the cache the stored value is returned, the body does not run and nothing
  is shown; the address becomes the most recently used. Otherwise the body runs, its
  warnings are shown, and the address enters the cache, the least recently used one
  leaving when there are more than 100. The body never raises, so every call is stored.
  The geocoder is a function of the address here, so the stored value is the value the
  body gives, and the cache is kept as the list of its addresses.
\<close>

definition lru_geocode_address ::
  "gmaps_geocode \<Rightarrow> string \<Rightarrow> lite_state \<Rightarrow> coord option \<times> lite_state"
where
  "lru_geocode_address gm address st =
     (if address \<in> set (geocode_cache st)
      then (fst (geocode_address gm address),
            st\<lparr>geocode_cache := address # remove1 address (geocode_cache st)\<rparr>)
      else (fst (geocode_address gm address),
            st\<lparr>messages := messages st @ snd (geocode_address gm address),
               geocode_cache := take 100 (address # geocode_cache st)\<rparr>))"

text \<open>\<^verbatim>\<open>coords = [geocode_address(addr) for addr in address_list]\<close>, from left to right.\<close>

fun lite_coords ::
  "gmaps_geocode \<Rightarrow> string list \<Rightarrow> lite_state \<Rightarrow> coord option list \<times> lite_state"
where
  "lite_coords gm [] st = ([], st)"
| "lite_coords gm (addr # rest) st =
     (case lru_geocode_address gm addr st of
        (c, st1) \<Rightarrow> (case lite_coords gm rest st1 of (cs, st2) \<Rightarrow> (c # cs, st2)))"

definition record_route :: "string list \<Rightarrow> string list \<Rightarrow> stats \<Rightarrow> lite_state \<Rightarrow> lite_state" where
  "record_route labels addresses s st =
     st\<lparr>route_paths := route_paths st @ [labels],
        route_addresses := route_addresses st @ [addresses],
        route_stats := route_stats st @ [s]\<rparr>"

definition n_stops :: "bool \<Rightarrow> int list \<Rightarrow> int" where
  "n_stops return_to_depot path =
     (if return_to_depot then int (length path) - 2 else int (length path) - 1)"

definition load_score :: "int \<Rightarrow> score" where
  "load_score n = (if n \<le> 2 then Light else if n \<le> 4 then Medium else Heavy)"

definition est_time :: "rounding \<Rightarrow> real \<Rightarrow> real" where
  "est_time py_round d = py_round (d / 40 * 60) 1"

text \<open>The branch \<^verbatim>\<open>if routes:\<close> of the handler, for the first route returned.\<close>

definition render_route ::
  "rounding \<Rightarrow> bool \<Rightarrow> string list \<Rightarrow> string list \<Rightarrow> matrix \<Rightarrow> int list \<Rightarrow> lite_state
     \<Rightarrow> lite_state outcome"
where
  "render_route py_round return_to_depot addresses labels m path st =
     (case total_dist m path of
        Inl e \<Rightarrow> (Some e, st)
      | Inr d \<Rightarrow>
          (case comprehension (subscript labels) path of
             Inl e \<Rightarrow> (Some e, st)
           | Inr shown_labels \<Rightarrow>
               (case comprehension (subscript addresses) path of
                  Inl e \<Rightarrow> (Some e, st\<lparr>route_paths := route_paths st @ [shown_labels]\<rparr>)
                | Inr shown_addresses \<Rightarrow>
                    (None,
                     record_route shown_labels shown_addresses
                       \<lparr>distance = py_round d 2,
                        time = est_time py_round d,
                        score = load_score (n_stops return_to_depot path)\<rparr> st))))"

text \<open>
  The body of \<^verbatim>\<open>for v in range(1, num_vehicles + 1)\<close> for one vehicle's stops. Neither
  the geocoding of the addresses, nor the construction of the matrix, nor the call of
  the solver stands in a \<^verbatim>\<open>try\<close>.
\<close>

definition lite_vehicle ::
  "solver \<Rightarrow> gmaps_geocode \<Rightarrow> rounding \<Rightarrow> bool \<Rightarrow> string \<Rightarrow> stop list \<Rightarrow> lite_state
     \<Rightarrow> lite_state outcome"
where
  "lite_vehicle solve_vrp gm py_round return_to_depot depot_address stops st =
     (if length (address_list depot_address stops) < 2
      then (None, record_route [] [] \<lparr>distance = 0, time = 0, score = Underused\<rparr> st)
      else
        (case lite_coords gm (address_list depot_address stops) st of
           (coords, st0) \<Rightarrow>
             (case dist_matrix coords of
                Inl e \<Rightarrow> (Some e, st0)
              | Inr m \<Rightarrow>
                  (case call_solver solve_vrp m 1 st0 of
                     (Inl e, st1) \<Rightarrow> (Some e, st1)
                   | (Inr None, st1) \<Rightarrow>
                       (None,
                        record_route [] [] \<lparr>distance = 0, time = 0, score = No_route\<rparr> st1)
                   | (Inr (Some []), st1) \<Rightarrow>
                       (None,
                        record_route [] [] \<lparr>distance = 0, time = 0, score = No_route\<rparr> st1)
                   | (Inr (Some (path # others)), st1) \<Rightarrow>
                       render_route py_round return_to_depot
                         (address_list depot_address stops) (label_list stops) m path st1))))"

fun lite_vehicles ::
  "solver \<Rightarrow> gmaps_geocode \<Rightarrow> rounding \<Rightarrow> bool \<Rightarrow> string \<Rightarrow> stop list list \<Rightarrow> lite_state
     \<Rightarrow> lite_state outcome"
where
  "lite_vehicles solve_vrp gm py_round return_to_depot depot_address [] st = (None, st)"
| "lite_vehicles solve_vrp gm py_round return_to_depot depot_address (stops # rest) st =
     (case lite_vehicle solve_vrp gm py_round return_to_depot depot_address stops st of
        (Some e, st') \<Rightarrow> (Some e, st')
      | (None, st') \<Rightarrow>
          lite_vehicles solve_vrp gm py_round return_to_depot depot_address rest st')"

text \<open>
  The state in which the handler starts its loop. Streamlit executes the script anew
  for every run, the \<^verbatim>\<open>def\<close> of \<^verbatim>\<open>geocode_address\<close> with its decorator included, so the
  cache is empty when a run begins. Before the handler the script has geocoded the
  depot (line 106) and has gone on only because a coordinate came back: the depot's
  address is in the cache and no warning has been shown. The handler has emptied the
  three result lists.
\<close>

definition lite_start :: "string \<Rightarrow> lite_state" where
  "lite_start depot_address =
     \<lparr>solver_calls = [], messages = [], route_paths = [], route_addresses = [],
      route_stats = [], geocode_cache = [depot_address]\<rparr>"

text \<open>
  The "Optimize Now" handler of Lite, the stops of vehicle 1, 2, ... given as a list:
  every vehicle is handled in turn, and the success message is shown when the loop
  ends.
\<close>

definition lite_optimize_now ::
  "solver \<Rightarrow> gmaps_geocode \<Rightarrow> rounding \<Rightarrow> bool \<Rightarrow> string \<Rightarrow> stop list list
     \<Rightarrow> lite_state outcome"
where
  "lite_optimize_now solve_vrp gm py_round return_to_depot depot_address fleet =
     (case lite_vehicles solve_vrp gm py_round return_to_depot depot_address fleet
             (lite_start depot_address) of
        (Some e, st) \<Rightarrow> (Some e, st)
      | (None, st) \<Rightarrow> (None, st\<lparr>messages := messages st @ [Success ''Routes optimized!'']\<rparr>))"

text \<open>
  A script run with the button pressed. The first call of \<^verbatim>\<open>geocode_address\<close> is the
  one for the depot and runs the body. When it returns None the script stops before
  the handler (\<^verbatim>\<open>st.stop()\<close>): the result is \<open>Inl\<close> of the warnings shown. Otherwise the
  handler runs.
\<close>

definition lite_script ::
  "solver \<Rightarrow> gmaps_geocode \<Rightarrow> rounding \<Rightarrow> bool \<Rightarrow> string \<Rightarrow> stop list list
     \<Rightarrow> ui_msg list + lite_state outcome"
where
  "lite_script solve_vrp gm py_round return_to_depot depot_address fleet =
     (case geocode_address gm depot_address of
        (None, warnings) \<Rightarrow> Inl warnings
      | (Some depot_coords, warnings) \<Rightarrow>
          Inr (lite_optimize_now solve_vrp gm py_round return_to_depot depot_address fleet))"

section \<open>pages/Pro.py\<close>

text \<open>
  \<^verbatim>\<open>geocode\<close> of Pro: None for an exception of the geocoder and for an empty result,
  otherwise the first result's location. It tests nothing about the address and shows
  nothing.
\<close>

definition geocode :: "gmaps_geocode \<Rightarrow> string \<Rightarrow> coord option" where
  "geocode gm a =
     (case gm a of
        Inl e \<Rightarrow> None
      | Inr [] \<Rightarrow> None
      | Inr (loc # others) \<Rightarrow> Some loc)"

text \<open>
  \<^verbatim>\<open>get_distance_matrix\<close>: the provider's rows, every element replaced by
  \<^verbatim>\<open>e['distance']['value'] / 1000\<close>. An element without the key \<^verbatim>\<open>'distance'\<close> raises
  KeyError; nothing in the function or around its call catches it.
\<close>

definition get_distance_matrix :: "gmaps_distance_matrix \<Rightarrow> string list \<Rightarrow> py_error + matrix" where
  "get_distance_matrix api addresses =
     (case api addresses of
        Inl e \<Rightarrow> Inl e
      | Inr rows \<Rightarrow>
          comprehension
            (comprehension
               (\<lambda>e. case e of None \<Rightarrow> Inl KeyError | Some v \<Rightarrow> Inr (real_of_int v / 1000)))
            rows)"

text \<open>A stop of Pro is a dictionary with the keys address, time, load and driver.\<close>

record pro_stop =
  address :: string
  time_window :: string
  load :: int
  driver :: string

definition pro_addresses :: "string \<Rightarrow> pro_stop list \<Rightarrow> string list" where
  "pro_addresses depot_address stops =
     depot_address # map address (filter (\<lambda>s. strip (address s) \<noteq> []) stops)"

text \<open>The entry of \<^verbatim>\<open>st.session_state.metrics\<close> for a route.\<close>

record route_metrics =
  path :: "string list"
  distance_km :: real
  cost :: real
  duration :: real

record pro_state = trace +
  metrics :: "string \<rightharpoonup> route_metrics"

text \<open>
  \<^verbatim>\<open>solve_vrp(matrix, 1)[0]\<close>: subscripting None raises TypeError, subscripting an empty
  list raises IndexError.
\<close>

definition first_route :: "py_error + int list list option \<Rightarrow> py_error + int list" where
  "first_route r =
     (case r of
        Inl e \<Rightarrow> Inl e
      | Inr None \<Rightarrow> Inl TypeError
      | Inr (Some routes) \<Rightarrow> subscript routes 0)"

definition duration_min :: "rounding \<Rightarrow> real \<Rightarrow> real" where
  "duration_min py_round dist_km = py_round (dist_km / 40 * 60) 1"

text \<open>
  The body of \<^verbatim>\<open>for route, stops in st.session_state.routes.items()\<close>. The bare
  \<^verbatim>\<open>except\<close> around the call of the solver catches every exception, shows a warning
  and goes on with the next route. The drawing of the map between the two
  comprehensions (polyline, markers) catches its own exceptions and is left out, as is
  the text of the summary.
\<close>

definition pro_route ::
  "solver \<Rightarrow> gmaps_distance_matrix \<Rightarrow> rounding \<Rightarrow> real \<Rightarrow> string \<Rightarrow> string \<times> pro_stop list
     \<Rightarrow> pro_state \<Rightarrow> pro_state outcome"
where
  "pro_route solve_vrp api py_round fuel_cost depot_address entry st =
     (if length (pro_addresses depot_address (snd entry)) < 2 then (None, st)
      else
        (case get_distance_matrix api (pro_addresses depot_address (snd entry)) of
           Inl e \<Rightarrow> (Some e, st)
         | Inr m \<Rightarrow>
             (case call_solver solve_vrp m 1 st of
                (r, st1) \<Rightarrow>
                  (case first_route r of
                     Inl e \<Rightarrow>
                       (None,
                        st1\<lparr>messages := messages st1
                              @ [Warning (''Optimization failed for '' @ fst entry)]\<rparr>)
                   | Inr indices \<Rightarrow>
                       (case comprehension
                               (subscript (pro_addresses depot_address (snd entry))) indices of
                          Inl e \<Rightarrow> (Some e, st1)
                        | Inr ordered \<Rightarrow>
                            (case total_dist m indices of
                               Inl e \<Rightarrow> (Some e, st1)
                             | Inr dist_km \<Rightarrow>
                                 (None,
                                  st1\<lparr>metrics := (metrics st1)(fst entry \<mapsto>
                                        \<lparr>path = ordered,
                                         distance_km = py_round dist_km 2,
                                         cost = py_round (dist_km * fuel_cost) 2,
                                         duration = duration_min py_round dist_km\<rparr>)\<rparr>)))))))"

fun pro_routes ::
  "solver \<Rightarrow> gmaps_distance_matrix \<Rightarrow> rounding \<Rightarrow> real \<Rightarrow> string
     \<Rightarrow> (string \<times> pro_stop list) list \<Rightarrow> pro_state \<Rightarrow> pro_state outcome"
where
  "pro_routes solve_vrp api py_round fuel_cost depot_address [] st = (None, st)"
| "pro_routes solve_vrp api py_round fuel_cost depot_address (entry # rest) st =
     (case pro_route solve_vrp api py_round fuel_cost depot_address entry st of
        (Some e, st') \<Rightarrow> (Some e, st')
      | (None, st') \<Rightarrow> pro_routes solve_vrp api py_round fuel_cost depot_address rest st')"

definition pro_start :: pro_state where
  "pro_start = \<lparr>solver_calls = [], messages = [], metrics = Map.empty\<rparr>"

text \<open>
  The "Optimize Now" handler of Pro over the routes in the order of the dictionary.
  When the depot does not geocode the handler shows an error and stops the script
  (the result \<open>None\<close>).
\<close>

definition pro_optimize_now ::
  "solver \<Rightarrow> gmaps_geocode \<Rightarrow> gmaps_distance_matrix \<Rightarrow> rounding \<Rightarrow> real \<Rightarrow> string
     \<Rightarrow> (string \<times> pro_stop list) list \<Rightarrow> pro_state outcome option"
where
  "pro_optimize_now solve_vrp gm api py_round fuel_cost depot_address routes =
     (case geocode gm depot_address of
        None \<Rightarrow> None
      | Some depot_coords \<Rightarrow>
          Some (case pro_routes solve_vrp api py_round fuel_cost depot_address routes pro_start of
                  (Some e, st) \<Rightarrow> (Some e, st)
                | (None, st) \<Rightarrow>
                    (None, st\<lparr>messages := messages st @ [Success ''Optimization complete!'']\<rparr>)))"

section \<open>The properties in the spec's words\<close>

text \<open>
  \<^verbatim>\<open>matrix[a][b]\<close> for node indices in range, and the sum of the costs of the
  consecutive edges of a path.
\<close>

definition edge_cost :: "matrix \<Rightarrow> int \<Rightarrow> int \<Rightarrow> real" where
  "edge_cost m a b =
     (m ! nat (norm_index (length m) a))
       ! nat (norm_index (length (m ! nat (norm_index (length m) a))) b)"

definition edge_sum :: "matrix \<Rightarrow> int list \<Rightarrow> real" where
  "edge_sum m p = (\<Sum>i = 0..<length p - 1. edge_cost m (p ! i) (p ! (i + 1)))"

text \<open>The entry a path is shown as: the element of the list at each node index.\<close>

definition shown :: "'a list \<Rightarrow> int list \<Rightarrow> 'a list" where
  "shown xs p = map (\<lambda>i. xs ! nat (norm_index (length xs) i)) p"

section \<open>The engine of the spec\<close>

text \<open>
  The solve the two pages call, \<^verbatim>\<open>fleet_optimizer.solve_vrp\<close>, is not among the source
  files; the spec describes it as a pipeline of five stages (sections 2 and 4) with the
  error kinds of section 7. The definitions of this section follow the spec.

  The Problem Model, the Route Constructor, the Local Search Optimizer and the Result
  Assembler are parameters of the pipeline, each with the type its contract gives it:
  the spec names no error kind for some checks of the Problem Model and leaves
  tie-breaks of the Constructor and the Optimizer open, and the policy of section 7
  holds whatever they compute. The Solution Validator is defined, since its three checks
  are what "validated" means.
\<close>

text \<open>Modelled from the spec: the error kinds of section 7 (the engine is not under src/).\<close>

datatype engine_error =
    DimensionMismatch
  | InvalidParameter
  | InfeasibleDemand nat
  | InternalInvariantViolation

text \<open>
  Modelled from the spec: the validated Problem Model of sections 3 and 4.1 (the engine
  is not under src/). The matrix has one row per node, node 0 being the depot;
  \<open>stop_demands\<close> holds the demands of the stops 1, 2, ...; the capacities, one per
  vehicle, are absent when the vehicles are unbounded.
\<close>

record problem_model =
  distance_matrix :: matrix
  stop_demands :: "real list"
  vehicle_count :: nat
  vehicle_capacities :: "real list option"

text \<open>
  Modelled from the spec: the demand of a node (section 3; the engine is not under
  src/). The demand of the depot is 0; an index that is no stop carries no demand.
\<close>

definition demand :: "problem_model \<Rightarrow> nat \<Rightarrow> real" where
  "demand pm node =
     (if 0 < node \<and> node \<le> length (stop_demands pm) then stop_demands pm ! (node - 1) else 0)"

text \<open>
  Modelled from the spec: the accumulated demand of a route (section 4.4 (c); the engine
  is not under src/).
\<close>

definition route_load :: "problem_model \<Rightarrow> nat list \<Rightarrow> real" where
  "route_load pm r = sum_list (map (demand pm) r)"

text \<open>
  Modelled from the spec: the Solution Validator of section 4.4 (the engine is not under
  src/). A Solution is the list of the routes, the route of vehicle 1 first. The
  validator re-checks that (a) every non-depot node appears in exactly one route exactly
  once, (b) every route begins and ends at node 0, (c) every route's accumulated demand
  is within its vehicle's capacity; any violation is an
  \<open>InternalInvariantViolation\<close>.
\<close>

definition solution_validator :: "problem_model \<Rightarrow> nat list list \<Rightarrow> engine_error + nat list list" where
  "solution_validator pm routes =
     (if list_all (\<lambda>node. count_list (concat routes) node = 1)
           [1..<length (distance_matrix pm)]
         \<and> list_all (\<lambda>r. r \<noteq> [] \<and> hd r = 0 \<and> last r = 0) routes
         \<and> (case vehicle_capacities pm of
               None \<Rightarrow> True
             | Some caps \<Rightarrow> list_all2 (\<lambda>r c. route_load pm r \<le> c) routes caps)
      then Inr routes
      else Inl InternalInvariantViolation)"

text \<open>
  Modelled from the spec: the control flow of section 2, Problem Model, Route
  Constructor, Local Search Optimizer, Solution Validator, Result Assembler, each stage
  a pure function of the output of the stage before it, with the propagation policy of
  section 7: the error of a stage is the result of the solve (the engine is not under
  src/). The Problem Model and the Constructor may fail, the Optimizer and the Assembler
  have no failure in their contracts.
\<close>

definition solve ::
  "('i \<Rightarrow> engine_error + problem_model) \<Rightarrow> (problem_model \<Rightarrow> engine_error + nat list list)
     \<Rightarrow> (problem_model \<Rightarrow> nat list list \<Rightarrow> nat list list)
     \<Rightarrow> (problem_model \<Rightarrow> nat list list \<Rightarrow> 'r) \<Rightarrow> 'i \<Rightarrow> engine_error + 'r"
where
  "solve problem_model_of route_constructor local_search result_assembler input =
     (case problem_model_of input of
        Inl e \<Rightarrow> Inl e
      | Inr pm \<Rightarrow>
          (case route_constructor pm of
             Inl e \<Rightarrow> Inl e
           | Inr initial \<Rightarrow>
               (case solution_validator pm (local_search pm initial) of
                  Inl e \<Rightarrow> Inl e
                | Inr validated \<Rightarrow> Inr (result_assembler pm validated))))"

section \<open>Auxiliary facts\<close>

lemma comprehension_Inr_iff:
  "comprehension f xs = Inr ys \<longleftrightarrow> list_all2 (\<lambda>x y. f x = Inr y) xs ys"
proof (induction xs arbitrary: ys)
  case Nil
  then show ?case by auto
next
  case (Cons x xs)
  show ?case
  proof (cases ys)
    case Nil
    then show ?thesis by (simp split: sum.splits)
  next
    case (Cons y ys')
    then show ?thesis
      by (simp add: Cons.IH [symmetric] split: sum.splits)
  qed
qed

lemma comprehension_total:
  "(\<And>x. x \<in> set xs \<Longrightarrow> f x = Inr (g x)) \<Longrightarrow> comprehension f xs = Inr (map g xs)"
  by (induction xs) auto

lemma dropWhile_all_iff: "(\<forall>c \<in> set (dropWhile P s). P c) \<longleftrightarrow> (\<forall>c \<in> set s. P c)"
  by (induction s) auto

lemma strip_empty_iff: "strip s = [] \<longleftrightarrow> blank s"
proof -
  have "strip s = [] \<longleftrightarrow> (\<forall>c \<in> set (dropWhile isspace s). isspace c)"
    by (simp add: strip_def rstrip_def lstrip_def)
  then show ?thesis
    by (simp only: dropWhile_all_iff blank_def list_all_iff)
qed

lemma comprehension_error:
  assumes "x \<in> set xs" and "f x = Inl e"
    and "\<And>y e'. y \<in> set xs \<Longrightarrow> f y = Inl e' \<Longrightarrow> e' = e"
  shows "comprehension f xs = Inl e"
  using assms
proof (induction xs)
  case Nil
  then show ?case by simp
next
  case (Cons a xs)
  show ?case
  proof (cases "f a")
    case (Inl e')
    have "a \<in> set (a # xs)" by simp
    then have "e' = e" using Inl by (rule Cons.prems(3))
    with Inl show ?thesis by simp
  next
    case (Inr y)
    with Cons.prems(2) have "x \<noteq> a" by auto
    with Cons.prems(1) have x: "x \<in> set xs" by simp
    have "comprehension f xs = Inl e"
    proof (rule Cons.IH [OF x Cons.prems(2)])
      fix z e' assume "z \<in> set xs" and fz: "f z = Inl e'"
      then have "z \<in> set (a # xs)" by simp
      then show "e' = e" using fz by (rule Cons.prems(3))
    qed
    with Inr show ?thesis by simp
  qed
qed

lemma comprehension_length: "comprehension f xs = Inr ys \<Longrightarrow> length ys = length xs"
  by (auto simp: comprehension_Inr_iff dest: list_all2_lengthD)

lemma comprehension_nth:
  "comprehension f xs = Inr ys \<Longrightarrow> i < length xs \<Longrightarrow> f (xs ! i) = Inr (ys ! i)"
  by (simp add: comprehension_Inr_iff list_all2_conv_all_nth)

lemma subscript_Inr:
  "subscript xs i = Inr x \<Longrightarrow> x = xs ! nat (norm_index (length xs) i)"
  by (simp add: subscript_def split: if_splits)

lemma subscript_Inl: "subscript xs i = Inl e \<Longrightarrow> e = IndexError"
  by (simp add: subscript_def split: if_splits)

lemma subscript_in_range:
  "(\<exists>x. subscript xs i = Inr x) \<longleftrightarrow> - int (length xs) \<le> i \<and> i < int (length xs)"
  by (auto simp: subscript_def norm_index_def)

lemma comprehension_subscript:
  assumes "comprehension (subscript xs) p = Inr ys"
  shows "ys = shown xs p"
proof (rule nth_equalityI)
  show "length ys = length (shown xs p)"
    using assms by (simp add: comprehension_length shown_def)
next
  fix k assume "k < length ys"
  then have k: "k < length p" using assms by (simp add: comprehension_length)
  with assms have "subscript xs (p ! k) = Inr (ys ! k)" by (rule comprehension_nth)
  then show "ys ! k = shown xs p ! k"
    using k by (simp add: shown_def subscript_Inr)
qed

lemma total_dist_edge_sum:
  assumes "total_dist m p = Inr d"
  shows "d = edge_sum m p"
proof -
  let ?f = "\<lambda>i. case subscript m (p ! i) of
                   Inl e \<Rightarrow> Inl e
                 | Inr row \<Rightarrow> subscript row (p ! (i + 1))"
  from assms obtain costs where c: "comprehension ?f [0..<length p - 1] = Inr costs"
    and d: "d = sum_list costs"
    by (auto simp: total_dist_def split: sum.splits)
  have len: "length costs = length p - 1"
    using c by (simp add: comprehension_length)
  have "costs = map (\<lambda>i. edge_cost m (p ! i) (p ! (i + 1))) [0..<length p - 1]"
  proof (rule nth_equalityI)
    show "length costs = length (map (\<lambda>i. edge_cost m (p ! i) (p ! (i + 1))) [0..<length p - 1])"
      using len by simp
  next
    fix k assume "k < length costs"
    then have k: "k < length p - 1" using len by simp
    then have nth: "[0..<length p - 1] ! k = k" by simp
    from k have "k < length [0..<length p - 1]" by simp
    with c have "?f ([0..<length p - 1] ! k) = Inr (costs ! k)" by (rule comprehension_nth)
    then have fk: "?f k = Inr (costs ! k)" by (simp only: nth)
    then obtain row where row: "subscript m (p ! k) = Inr row"
      and cost: "subscript row (p ! (k + 1)) = Inr (costs ! k)"
      by (cases "subscript m (p ! k)") simp_all
    from row have "row = m ! nat (norm_index (length m) (p ! k))" by (rule subscript_Inr)
    with cost have "costs ! k = edge_cost m (p ! k) (p ! (k + 1))"
      unfolding edge_cost_def by (simp add: subscript_Inr)
    with k show "costs ! k = map (\<lambda>i. edge_cost m (p ! i) (p ! (i + 1))) [0..<length p - 1] ! k"
      by simp
  qed
  with d show ?thesis
    by (simp only: edge_sum_def interv_sum_list_conv_sum_set_nat set_upt)
qed

lemma cell_total:
  "i < length cs \<Longrightarrow> j < length cs \<Longrightarrow>
   cell (map Some cs) i j =
     Inr (if i = j then 0
          else sqrt ((fst (cs ! i) - fst (cs ! j))\<^sup>2 + (snd (cs ! i) - snd (cs ! j))\<^sup>2) * 111)"
  by (simp add: cell_def)

lemma dist_matrix_total:
  "dist_matrix (map Some cs) =
     Inr (map (\<lambda>i. map (\<lambda>j. if i = j then 0
                 else sqrt ((fst (cs ! i) - fst (cs ! j))\<^sup>2 + (snd (cs ! i) - snd (cs ! j))\<^sup>2) * 111)
               [0..<length cs]) [0..<length cs])"
proof -
  let ?d = "\<lambda>i j. if i = j then 0
              else sqrt ((fst (cs ! i) - fst (cs ! j))\<^sup>2 + (snd (cs ! i) - snd (cs ! j))\<^sup>2) * 111"
  have row: "comprehension (\<lambda>j. cell (map Some cs) i j) [0..<length cs]
               = Inr (map (?d i) [0..<length cs])" if "i \<in> set [0..<length cs]" for i
    using that by (intro comprehension_total) (simp add: cell_total)
  have "comprehension (\<lambda>i. comprehension (\<lambda>j. cell (map Some cs) i j) [0..<length cs])
          [0..<length cs] = Inr (map (\<lambda>i. map (?d i) [0..<length cs]) [0..<length cs])"
    by (rule comprehension_total) (rule row)
  then show ?thesis by (simp add: dist_matrix_def)
qed

lemma cell_Inl: "cell coords i j = Inl e \<Longrightarrow> e = TypeError"
  by (auto simp: cell_def split: if_splits option.splits)

lemma row_missing:
  assumes "i < length coords" "j < length coords" "i \<noteq> j" "coords ! i = None \<or> coords ! j = None"
  shows "comprehension (\<lambda>j. cell coords i j) [0..<length coords] = Inl TypeError"
proof (rule comprehension_error [where x = j])
  show "j \<in> set [0..<length coords]" using assms by simp
  show "cell coords i j = Inl TypeError"
    using assms by (auto simp: cell_def split: option.splits)
  show "\<And>y e'. y \<in> set [0..<length coords] \<Longrightarrow> cell coords i y = Inl e' \<Longrightarrow> e' = TypeError"
    by (rule cell_Inl)
qed

lemma row_Inl:
  "comprehension (\<lambda>j. cell coords i j) js = Inl e \<Longrightarrow> e = TypeError"
proof (induction js)
  case Nil
  then show ?case by simp
next
  case (Cons a js)
  then show ?case by (auto split: sum.splits dest: cell_Inl)
qed

lemma dist_matrix_missing:
  assumes "2 \<le> length coords" and "None \<in> set coords"
  shows "dist_matrix coords = Inl TypeError"
proof -
  from assms(2) obtain k where k: "k < length coords" "coords ! k = None"
    by (auto simp: in_set_conv_nth)
  define j where "j = (if k = 0 then 1 else 0 :: nat)"
  have j: "j < length coords" "k \<noteq> j" using assms(1) by (auto simp: j_def)
  show ?thesis
    unfolding dist_matrix_def
  proof (rule comprehension_error [where x = k])
    show "k \<in> set [0..<length coords]" using k by simp
    show "comprehension (cell coords k) [0..<length coords] = Inl TypeError"
      using k j by (intro row_missing [of k coords j]) auto
    show "\<And>y e'. y \<in> set [0..<length coords] \<Longrightarrow>
            comprehension (cell coords y) [0..<length coords] = Inl e' \<Longrightarrow> e' = TypeError"
      by (rule row_Inl)
  qed
qed

lemma dist_matrix_Inr_iff:
  assumes "2 \<le> length coords"
  shows "(\<exists>m. dist_matrix coords = Inr m) \<longleftrightarrow> None \<notin> set coords"
proof
  assume "\<exists>m. dist_matrix coords = Inr m"
  then show "None \<notin> set coords"
    using dist_matrix_missing [OF assms] by auto
next
  assume "None \<notin> set coords"
  then have "coords = map Some (map the coords)"
    by (induction coords) auto
  then obtain cs where "coords = map Some cs" ..
  then show "\<exists>m. dist_matrix coords = Inr m"
    by (simp add: dist_matrix_total)
qed


subsection \<open>Geocoding through the cache\<close>

lemma geocode_address_shown:
  "fst (geocode_address gm a) \<noteq> None \<Longrightarrow> snd (geocode_address gm a) = []"
  by (simp add: geocode_address_def split: if_splits sum.splits list.splits)

lemma lru_geocode_address_value:
  "fst (lru_geocode_address gm a st) = fst (geocode_address gm a)"
  by (simp add: lru_geocode_address_def)

lemma lru_geocode_address_frame:
  "solver_calls (snd (lru_geocode_address gm a st)) = solver_calls st"
  "route_paths (snd (lru_geocode_address gm a st)) = route_paths st"
  "route_addresses (snd (lru_geocode_address gm a st)) = route_addresses st"
  "route_stats (snd (lru_geocode_address gm a st)) = route_stats st"
  by (simp_all add: lru_geocode_address_def)

lemma lru_geocode_address_messages:
  "messages (snd (lru_geocode_address gm a st))
     = (if a \<in> set (geocode_cache st) then messages st
        else messages st @ snd (geocode_address gm a))"
  by (simp add: lru_geocode_address_def)

lemma lru_geocode_address_cache:
  "geocode_cache (snd (lru_geocode_address gm ''B'' (st\<lparr>geocode_cache := [''A'', ''B'']\<rparr>)))
     = [''B'', ''A'']"
  "geocode_cache (snd (lru_geocode_address gm ''A'' (st\<lparr>geocode_cache := replicate 100 ''B''\<rparr>)))
     = ''A'' # replicate 99 ''B''"
  by (simp_all add: lru_geocode_address_def)

lemma lite_coords_value:
  "fst (lite_coords gm addrs st) = map (fst \<circ> geocode_address gm) addrs"
proof (induction addrs arbitrary: st)
  case Nil
  then show ?case by simp
next
  case (Cons a addrs)
  have "fst (lite_coords gm (a # addrs) st)
          = fst (lru_geocode_address gm a st)
            # fst (lite_coords gm addrs (snd (lru_geocode_address gm a st)))"
    by (simp add: case_prod_unfold)
  then show ?case by (simp add: Cons.IH lru_geocode_address_value)
qed

lemma lite_coords_frame_all:
  "solver_calls (snd (lite_coords gm addrs st)) = solver_calls st
   \<and> route_paths (snd (lite_coords gm addrs st)) = route_paths st
   \<and> route_addresses (snd (lite_coords gm addrs st)) = route_addresses st
   \<and> route_stats (snd (lite_coords gm addrs st)) = route_stats st"
proof (induction addrs arbitrary: st)
  case Nil
  then show ?case by simp
next
  case (Cons a addrs)
  have step: "snd (lite_coords gm (a # addrs) st)
          = snd (lite_coords gm addrs (snd (lru_geocode_address gm a st)))"
    by (simp add: case_prod_unfold)
  show ?case
    by (simp only: step Cons.IH lru_geocode_address_frame)
qed

lemma lite_coords_frame:
  "solver_calls (snd (lite_coords gm addrs st)) = solver_calls st"
  "route_paths (snd (lite_coords gm addrs st)) = route_paths st"
  "route_addresses (snd (lite_coords gm addrs st)) = route_addresses st"
  "route_stats (snd (lite_coords gm addrs st)) = route_stats st"
  using lite_coords_frame_all [of gm addrs st] by simp_all

lemma lite_coords_messages:
  "\<exists>ws. messages (snd (lite_coords gm addrs st)) = messages st @ ws"
proof (induction addrs arbitrary: st)
  case Nil
  then show ?case by simp
next
  case (Cons a addrs)
  have step: "snd (lite_coords gm (a # addrs) st)
          = snd (lite_coords gm addrs (snd (lru_geocode_address gm a st)))"
    by (simp add: case_prod_unfold)
  obtain ws where ws: "messages (snd (lite_coords gm addrs (snd (lru_geocode_address gm a st))))
          = messages (snd (lru_geocode_address gm a st)) @ ws"
    using Cons.IH by blast
  have "\<exists>vs. messages (snd (lru_geocode_address gm a st)) = messages st @ vs"
    by (cases "a \<in> set (geocode_cache st)") (simp_all add: lru_geocode_address_def)
  then obtain vs where vs: "messages (snd (lru_geocode_address gm a st)) = messages st @ vs" ..
  show ?case unfolding step ws vs by simp
qed

subsection \<open>One iteration of a handler\<close>

lemma render_route_done:
  assumes "render_route py_round rtd addrs labels m p st = (None, st')"
  shows "st' = record_route (shown labels p) (shown addrs p)
           \<lparr>distance = py_round (edge_sum m p) 2,
            time = est_time py_round (edge_sum m p),
            score = load_score (n_stops rtd p)\<rparr> st"
proof -
  from assms obtain d ls as where d: "total_dist m p = Inr d"
    and ls: "comprehension (subscript labels) p = Inr ls"
    and as: "comprehension (subscript addrs) p = Inr as"
    and st': "st' = record_route ls as
           \<lparr>distance = py_round d 2, time = est_time py_round d,
            score = load_score (n_stops rtd p)\<rparr> st"
    by (auto simp: render_route_def split: sum.splits)
  from d have "d = edge_sum m p" by (rule total_dist_edge_sum)
  moreover from ls have "ls = shown labels p" by (rule comprehension_subscript)
  moreover from as have "as = shown addrs p" by (rule comprehension_subscript)
  ultimately show ?thesis using st' by simp
qed

lemma lite_vehicle_no_stops:
  "length (address_list depot stops) < 2 \<Longrightarrow>
   lite_vehicle solve_vrp gm py_round rtd depot stops st =
     (None, record_route [] [] \<lparr>distance = 0, time = 0, score = Underused\<rparr> st)"
  by (simp add: lite_vehicle_def)

lemma lite_vehicle_solved:
  assumes "2 \<le> length (address_list depot stops)"
    and "dist_matrix (map (fst \<circ> geocode_address gm) (address_list depot stops)) = Inr m"
  shows "lite_vehicle solve_vrp gm py_round rtd depot stops st =
     (case solve_vrp m 1 of
        Inl e \<Rightarrow>
          (Some e, (snd (lite_coords gm (address_list depot stops) st))
                      \<lparr>solver_calls := solver_calls st @ [(m, 1)]\<rparr>)
      | Inr None \<Rightarrow>
          (None, record_route [] [] \<lparr>distance = 0, time = 0, score = No_route\<rparr>
                   ((snd (lite_coords gm (address_list depot stops) st))
                      \<lparr>solver_calls := solver_calls st @ [(m, 1)]\<rparr>))
      | Inr (Some []) \<Rightarrow>
          (None, record_route [] [] \<lparr>distance = 0, time = 0, score = No_route\<rparr>
                   ((snd (lite_coords gm (address_list depot stops) st))
                      \<lparr>solver_calls := solver_calls st @ [(m, 1)]\<rparr>))
      | Inr (Some (p # others)) \<Rightarrow>
          render_route py_round rtd (address_list depot stops) (label_list stops) m p
            ((snd (lite_coords gm (address_list depot stops) st))
               \<lparr>solver_calls := solver_calls st @ [(m, 1)]\<rparr>))"
  using assms
  by (simp add: lite_vehicle_def call_solver_def case_prod_unfold lite_coords_value
        lite_coords_frame split: sum.splits option.splits list.splits)

lemma lite_vehicle_missing:
  assumes "2 \<le> length (address_list depot stops)"
    and "\<exists>a \<in> set (address_list depot stops). fst (geocode_address gm a) = None"
  shows "lite_vehicle solve_vrp gm py_round rtd depot stops st
           = (Some TypeError, snd (lite_coords gm (address_list depot stops) st))"
proof -
  have "2 \<le> length (map (fst \<circ> geocode_address gm) (address_list depot stops))"
    using assms(1) by simp
  moreover have "None \<in> set (map (fst \<circ> geocode_address gm) (address_list depot stops))"
    using assms(2) by (auto simp: image_iff) metis
  ultimately
  have "dist_matrix (map (fst \<circ> geocode_address gm) (address_list depot stops)) = Inl TypeError"
    by (rule dist_matrix_missing)
  then show ?thesis
    using assms(1) by (simp add: lite_vehicle_def case_prod_unfold lite_coords_value)
qed

lemma pro_route_no_stops:
  "length (pro_addresses depot stops) < 2 \<Longrightarrow>
   pro_route solve_vrp api py_round fuel_cost depot (route, stops) st = (None, st)"
  by (simp add: pro_route_def)

lemma pro_route_failed:
  assumes "2 \<le> length (pro_addresses depot stops)"
    and "get_distance_matrix api (pro_addresses depot stops) = Inr m"
    and "first_route (solve_vrp m 1) = Inl e"
  shows "pro_route solve_vrp api py_round fuel_cost depot (route, stops) st =
     (None, st\<lparr>solver_calls := solver_calls st @ [(m, 1)],
               messages := messages st @ [Warning (''Optimization failed for '' @ route)]\<rparr>)"
  using assms by (simp add: pro_route_def call_solver_def)


lemma pro_route_missing:
  assumes "2 \<le> length (pro_addresses depot stops)"
    and "get_distance_matrix api (pro_addresses depot stops) = Inl e"
  shows "pro_route solve_vrp api py_round fuel_cost depot (route, stops) st = (Some e, st)"
  using assms by (simp add: pro_route_def)

lemma keep_stop_iff: "(\<lambda>(lbl, addr). strip addr \<noteq> []) = (\<lambda>s. \<not> blank (snd s))"
  by (auto simp: strip_empty_iff fun_eq_iff)

lemma address_list_nonblank:
  "address_list depot stops = depot # map snd (filter (\<lambda>s. \<not> blank (snd s)) stops)"
  by (simp add: address_list_def keep_stop_iff)

lemma label_list_nonblank:
  "label_list stops = ''Depot'' # map fst (filter (\<lambda>s. \<not> blank (snd s)) stops)"
  by (simp add: label_list_def keep_stop_iff)

lemma pro_addresses_nonblank:
  "pro_addresses depot pstops = depot # map address (filter (\<lambda>s. \<not> blank (address s)) pstops)"
  by (simp add: pro_addresses_def strip_empty_iff)

lemma geocode_address_blank: "blank a \<Longrightarrow> geocode_address gm a = (None, [])"
  by (simp add: geocode_address_def strip_empty_iff)



lemma lite_script_stops:
  "fst (geocode_address gm depot) = None \<Longrightarrow>
   lite_script solve_vrp gm py_round rtd depot fleet = Inl (snd (geocode_address gm depot))"
  by (cases "geocode_address gm depot") (simp add: lite_script_def)

lemma lite_script_runs:
  "fst (geocode_address gm depot) = Some c \<Longrightarrow>
   lite_script solve_vrp gm py_round rtd depot fleet
     = Inr (lite_optimize_now solve_vrp gm py_round rtd depot fleet)"
  by (cases "geocode_address gm depot") (simp add: lite_script_def)

lemma lite_script_stops_example:
  "lite_script solve_vrp (\<lambda>a. Inl (External ''timeout'')) py_round rtd ''D'' fleet
     = Inl [Geocoding_warning ''D'' (External ''timeout'')]"
  by (simp add: lite_script_def geocode_address_def strip_def lstrip_def rstrip_def isspace_def)

lemma lite_vehicles_abort:
  assumes "stops \<in> set fleet"
    and "2 \<le> length (address_list depot stops)"
    and "\<exists>a \<in> set (address_list depot stops). fst (geocode_address gm a) = None"
  shows "fst (lite_vehicles solve_vrp gm py_round rtd depot fleet st) \<noteq> None"
  using assms(1)
proof (induction fleet arbitrary: st)
  case Nil
  then show ?case by simp
next
  case (Cons x xs)
  show ?case
  proof (cases "lite_vehicle solve_vrp gm py_round rtd depot x st")
    case (Pair r st')
    show ?thesis
    proof (cases r)
      case (Some e)
      with Pair show ?thesis by simp
    next
      case None
      have "x \<noteq> stops"
      proof
        assume "x = stops"
        then have "fst (lite_vehicle solve_vrp gm py_round rtd depot x st) = Some TypeError"
          using assms(2,3) by (simp add: lite_vehicle_missing)
        with Pair None show False by simp
      qed
      with Cons.prems have "stops \<in> set xs" by auto
      then have "fst (lite_vehicles solve_vrp gm py_round rtd depot xs st') \<noteq> None"
        by (rule Cons.IH)
      with Pair None show ?thesis by simp
    qed
  qed
qed

lemma lite_optimize_now_raised:
  "fst (lite_optimize_now solve_vrp gm py_round rtd depot fleet)
     = fst (lite_vehicles solve_vrp gm py_round rtd depot fleet (lite_start depot))"
  by (simp add: lite_optimize_now_def split: prod.splits option.splits)

lemma render_route_calls:
  "solver_calls (snd (render_route py_round rtd addrs labels m p st)) = solver_calls st"
  "messages (snd (render_route py_round rtd addrs labels m p st)) = messages st"
  by (simp_all add: render_route_def record_route_def split: sum.splits)

lemma lite_vehicle_calls:
  assumes "2 \<le> length (address_list depot stops)"
    and "dist_matrix (map (fst \<circ> geocode_address gm) (address_list depot stops)) = Inr m"
  shows "solver_calls (snd (lite_vehicle solve_vrp gm py_round rtd depot stops st))
           = solver_calls st @ [(m, 1)]"
  by (simp add: lite_vehicle_solved [OF assms] render_route_calls record_route_def
        split: sum.splits option.splits list.splits)

lemma pro_route_calls:
  assumes "2 \<le> length (pro_addresses depot stops)"
    and "get_distance_matrix api (pro_addresses depot stops) = Inr m"
  shows "solver_calls (snd (pro_route solve_vrp api py_round fuel_cost depot (route, stops) st))
           = solver_calls st @ [(m, 1)]"
  using assms by (simp add: pro_route_def call_solver_def split: sum.splits)

lemma dist_matrix_entry:
  assumes "dist_matrix coords = Inr m" and "i < length coords" and "j < length coords"
    and "i \<noteq> j"
  shows "\<exists>ci cj. coords ! i = Some ci \<and> coords ! j = Some cj
           \<and> m ! i ! j = sqrt ((fst ci - fst cj)\<^sup>2 + (snd ci - snd cj)\<^sup>2) * 111"
proof -
  from assms(1) have "comprehension (\<lambda>i. comprehension (\<lambda>j. cell coords i j) [0..<length coords])
      [0..<length coords] = Inr m"
    by (simp add: dist_matrix_def)
  moreover have "i < length [0..<length coords]" using assms(2) by simp
  ultimately have "comprehension (\<lambda>j. cell coords ([0..<length coords] ! i) j) [0..<length coords]
      = Inr (m ! i)"
    by (rule comprehension_nth)
  then have row: "comprehension (\<lambda>j. cell coords i j) [0..<length coords] = Inr (m ! i)"
    using assms(2) by simp
  have "j < length [0..<length coords]" using assms(3) by simp
  with row have "cell coords i ([0..<length coords] ! j) = Inr (m ! i ! j)"
    by (rule comprehension_nth)
  then have "cell coords i j = Inr (m ! i ! j)" using assms(3) by simp
  with assms(4) show ?thesis
    by (auto simp: cell_def split: option.splits)
qed

lemma lite_matrix_entry:
  assumes "dist_matrix (map (fst \<circ> geocode_address gm) addrs) = Inr m"
    and "a < length addrs" and "b < length addrs" and "a \<noteq> b"
  shows "\<exists>ca cb. fst (geocode_address gm (addrs ! a)) = Some ca
           \<and> fst (geocode_address gm (addrs ! b)) = Some cb
           \<and> m ! a ! b = sqrt ((fst ca - fst cb)\<^sup>2 + (snd ca - snd cb)\<^sup>2) * 111"
proof -
  have "a < length (map (fst \<circ> geocode_address gm) addrs)"
    and "b < length (map (fst \<circ> geocode_address gm) addrs)"
    using assms(2,3) by simp_all
  from dist_matrix_entry [OF assms(1) this assms(4)] assms(2,3)
  show ?thesis by simp
qed

section \<open>A run of each page\<close>

text \<open>
  Lite with the depot at \<open>(0, 0)\<close> and one stop at \<open>(3, 4)\<close>, and Pro with one stop that
  the provider puts 1234 metres from the depot; the solver answers with the route
  \<open>[0, 1, 0]\<close>. In the examples \<^verbatim>\<open>round\<close> is rounding to the nearest multiple of
  \<open>10\<^sup>-\<^sup>n\<close>; none of their figures lies halfway between two multiples, so Python's
  \<^verbatim>\<open>round\<close> gives the same values.
\<close>

lemma example_lite_lists:
  "address_list ''D'' [(''Stop 1'', ''A'')] = [''D'', ''A'']"
  "label_list [(''Stop 1'', ''A'')] = [''Depot'', ''Stop 1'']"
  by (simp_all add: address_list_nonblank label_list_nonblank blank_def isspace_def)

lemma example_geocode:
  "geocode_address (\<lambda>a. if a = ''D'' then Inr [(0, 0)] else Inr [(3, 4)]) ''D'' = (Some (0, 0), [])"
  "geocode_address (\<lambda>a. if a = ''D'' then Inr [(0, 0)] else Inr [(3, 4)]) ''A'' = (Some (3, 4), [])"
  by (simp_all add: geocode_address_def strip_def lstrip_def rstrip_def isspace_def)

lemma example_lite_matrix:
  "2 \<le> length (address_list ''D'' [(''Stop 1'', ''A'')])"
  "dist_matrix (map (fst \<circ> geocode_address (\<lambda>a. if a = ''D'' then Inr [(0, 0)] else Inr [(3, 4)]))
       (address_list ''D'' [(''Stop 1'', ''A'')])) = Inr [[0, 555], [555, 0]]"
proof -
  have s: "sqrt 25 = 5" by (rule real_sqrt_unique) simp_all
  have dm: "dist_matrix [Some (0, 0), Some (3, 4)] = Inr [[0, 555], [555, 0]]"
    by (simp add: dist_matrix_def cell_def upt_rec s)
  show "2 \<le> length (address_list ''D'' [(''Stop 1'', ''A'')])"
    by (simp add: example_lite_lists)
  show "dist_matrix (map (fst \<circ> geocode_address (\<lambda>a. if a = ''D'' then Inr [(0, 0)] else Inr [(3, 4)]))
       (address_list ''D'' [(''Stop 1'', ''A'')])) = Inr [[0, 555], [555, 0]]"
    by (simp add: example_lite_lists example_geocode dm)
qed

lemma example_total_dist:
  "total_dist [[0, 555], [555, 0]] [0, 1, 0] = Inr 1110"
  "total_dist [[0, 617 / 500], [617 / 500, 0]] [0, 1, 0] = Inr (617 / 250)"
  "edge_sum [[0, 555], [555, 0]] [0, 1, 0] = 1110"
  "edge_sum [[0, 617 / 500], [617 / 500, 0]] [0, 1, 0] = 617 / 250"
  by (simp_all add: total_dist_def subscript_def norm_index_def upt_rec edge_sum_def
        edge_cost_def)



lemma example_pro_run:
  "pro_route (\<lambda>m k. Inr (Some [[0, 1, 0]]))
       (\<lambda>a. Inr [[Some 0, Some 1234], [Some 1234, Some 0]])
       (\<lambda>x n. real_of_int \<lfloor>x * 10 ^ n + 1 / 2\<rfloor> / 10 ^ n) (1 / 4) ''D''
       (''Route 1'', [\<lparr>address = ''A'', time_window = ''9:00'', load = 10, driver = []\<rparr>])
       pro_start =
     (None,
      pro_start\<lparr>solver_calls := [([[0, 617 / 500], [617 / 500, 0]], 1)],
         metrics := [''Route 1'' \<mapsto>
            \<lparr>path = [''D'', ''A'', ''D''], distance_km = 247 / 100, cost = 31 / 50,
             duration = 37 / 10\<rparr>]\<rparr>)"
  by (simp add: pro_route_def pro_addresses_nonblank blank_def isspace_def get_distance_matrix_def
        call_solver_def first_route_def subscript_def norm_index_def example_total_dist
        duration_min_def pro_start_def)

lemma example_lite_fleet:
  "lite_optimize_now (\<lambda>m k. Inr (Some [[0, 1, 0]]))
       (\<lambda>a. if a = ''D'' then Inr [(0, 0)] else Inr [(3, 4)])
       (\<lambda>x n. real_of_int \<lfloor>x * 10 ^ n + 1 / 2\<rfloor> / 10 ^ n) True ''D''
       [[], [(''Stop 1'', ''A'')]] =
     (None,
      \<lparr>solver_calls = [([[0, 555], [555, 0]], 1)], messages = [Success ''Routes optimized!''],
       route_paths = [[], [''Depot'', ''Stop 1'', ''Depot'']],
       route_addresses = [[], [''D'', ''A'', ''D'']],
       route_stats = [\<lparr>distance = 0, time = 0, score = Underused\<rparr>,
                      \<lparr>distance = 1110, time = 1665, score = Light\<rparr>],
       geocode_cache = [''A'', ''D'']\<rparr>)"
proof -
  have first: "length (address_list ''D'' []) < 2" by (simp add: address_list_def)
  show ?thesis
    by (simp add: lite_optimize_now_def lite_vehicle_no_stops [OF first]
          lite_vehicle_solved [OF example_lite_matrix] example_lite_lists
          lru_geocode_address_def example_geocode lite_start_def render_route_def
          example_total_dist est_time_def subscript_def norm_index_def record_route_def
          n_stops_def load_score_def)
qed

lemma example_pro_fleet:
  "pro_optimize_now (\<lambda>m k. Inr (Some [[0, 1, 0]])) (\<lambda>a. Inr [(0, 0)])
       (\<lambda>a. Inr [[Some 0, Some 1234], [Some 1234, Some 0]])
       (\<lambda>x n. real_of_int \<lfloor>x * 10 ^ n + 1 / 2\<rfloor> / 10 ^ n) (1 / 4) ''D''
       [(''Route 1'', [\<lparr>address = ''A'', time_window = ''9:00'', load = 10, driver = []\<rparr>]),
        (''Route 2'', [])] =
     Some (None,
      \<lparr>solver_calls = [([[0, 617 / 500], [617 / 500, 0]], 1)],
       messages = [Success ''Optimization complete!''],
       metrics = [''Route 1'' \<mapsto>
            \<lparr>path = [''D'', ''A'', ''D''], distance_km = 247 / 100, cost = 31 / 50,
             duration = 37 / 10\<rparr>]\<rparr>)"
proof -
  have second: "length (pro_addresses ''D'' []) < 2" by (simp add: pro_addresses_def)
  have "pro_routes (\<lambda>m k. Inr (Some [[0, 1, 0]]))
       (\<lambda>a. Inr [[Some 0, Some 1234], [Some 1234, Some 0]])
       (\<lambda>x n. real_of_int \<lfloor>x * 10 ^ n + 1 / 2\<rfloor> / 10 ^ n) (1 / 4) ''D''
       [(''Route 1'', [\<lparr>address = ''A'', time_window = ''9:00'', load = 10, driver = []\<rparr>]),
        (''Route 2'', [])] pro_start =
     (None,
      pro_start\<lparr>solver_calls := [([[0, 617 / 500], [617 / 500, 0]], 1)],
         metrics := [''Route 1'' \<mapsto>
            \<lparr>path = [''D'', ''A'', ''D''], distance_km = 247 / 100, cost = 31 / 50,
             duration = 37 / 10\<rparr>]\<rparr>)"
    by (simp add: example_pro_run pro_route_no_stops [OF second])
  then show ?thesis
    by (simp add: pro_optimize_now_def geocode_def pro_start_def)
qed

section \<open>The claims\<close>

subsection \<open>Stops without an address\<close>

text \<open>
  Claim C10 says that the address list given to the solver holds only non-blank
  addresses in both pages. Both pages filter the stops, but neither filters the depot,
  and Pro's \<^verbatim>\<open>geocode\<close> has no test for a blank address: with a depot address of two
  spaces that the geocoder resolves, Pro's handler asks the provider for the matrix of
  the list \<open>['  ', 'A']\<close>, calls the solver with it and stores a path that holds the
  blank address.
\<close>

theorem blank_depot_counterexample:
  "blank ''  ''
   \<and> pro_addresses ''  '' [\<lparr>address = ''A'', time_window = ''9:00'', load = 10, driver = []\<rparr>]
       = [''  '', ''A'']
   \<and> pro_optimize_now (\<lambda>m k. Inr (Some [[0, 1, 0]])) (\<lambda>a. Inr [(0, 0)])
        (\<lambda>addresses. if addresses = [''  '', ''A'']
           then Inr [[Some 0, Some 1234], [Some 1234, Some 0]] else Inl (External ''other list''))
        (\<lambda>x n. real_of_int \<lfloor>x * 10 ^ n + 1 / 2\<rfloor> / 10 ^ n) (1 / 4) ''  ''
        [(''Route 1'', [\<lparr>address = ''A'', time_window = ''9:00'', load = 10, driver = []\<rparr>])] =
      Some (None,
        \<lparr>solver_calls = [([[0, 617 / 500], [617 / 500, 0]], 1)],
         messages = [Success ''Optimization complete!''],
         metrics = [''Route 1'' \<mapsto>
            \<lparr>path = [''  '', ''A'', ''  ''], distance_km = 247 / 100, cost = 31 / 50,
             duration = 37 / 10\<rparr>]\<rparr>)"
  by (simp add: pro_optimize_now_def geocode_def pro_route_def pro_addresses_nonblank blank_def
        isspace_def get_distance_matrix_def call_solver_def first_route_def subscript_def
        norm_index_def example_total_dist duration_min_def pro_start_def)

text \<open>
  Claim C10, as the code has it. Before any solve, both pages leave out every stop whose
  address is empty or whitespace only: the address list is the depot followed by the
  addresses of the stops that are not blank, in order, so every address after the depot
  is not blank. In Lite the label list is filtered by the same test and is as long as
  the address list. The depot's address is not filtered. In Lite it is never blank when
  the handler runs, because \<^verbatim>\<open>geocode_address\<close> returns None for a blank address and the
  script stops before the handler, so there the whole list is free of blank addresses.
  In Pro the whole list is free of blank addresses exactly when the depot's address is
  not blank.
\<close>

theorem blank_stops_filtered:
  "address_list depot stops = depot # map snd (filter (\<lambda>s. \<not> blank (snd s)) stops)
   \<and> label_list stops = ''Depot'' # map fst (filter (\<lambda>s. \<not> blank (snd s)) stops)
   \<and> length (label_list stops) = length (address_list depot stops)
   \<and> pro_addresses depot pstops = depot # map address (filter (\<lambda>s. \<not> blank (address s)) pstops)
   \<and> (\<forall>a \<in> set (tl (address_list depot stops)). \<not> blank a)
   \<and> (\<forall>a \<in> set (tl (pro_addresses depot pstops)). \<not> blank a)
   \<and> (lite_script solve_vrp gm py_round rtd depot fleet = Inr out
        \<longrightarrow> (\<forall>a \<in> set (address_list depot stops). \<not> blank a))
   \<and> ((\<forall>a \<in> set (pro_addresses depot pstops). \<not> blank a) \<longleftrightarrow> \<not> blank depot)"
proof -
  have "lite_script solve_vrp gm py_round rtd depot fleet = Inr out \<longrightarrow> \<not> blank depot"
  proof
    assume run: "lite_script solve_vrp gm py_round rtd depot fleet = Inr out"
    show "\<not> blank depot"
    proof
      assume "blank depot"
      then have "geocode_address gm depot = (None, [])" by (rule geocode_address_blank)
      with run show False by (simp add: lite_script_def)
    qed
  qed
  then show ?thesis
    by (auto simp: address_list_nonblank label_list_nonblank pro_addresses_nonblank)
qed

theorem blank_stops_filtered_witness:
  "address_list ''D'' [(''Stop 1'', ''A''), (''Stop 2'', ''  ''), (''Stop 3'', [])] = [''D'', ''A'']
   \<and> label_list [(''Stop 1'', ''A''), (''Stop 2'', ''  ''), (''Stop 3'', [])] = [''Depot'', ''Stop 1'']
   \<and> pro_addresses ''D''
        [\<lparr>address = ''  '', time_window = ''9:00'', load = 10, driver = []\<rparr>,
         \<lparr>address = ''B'', time_window = ''9:00'', load = 10, driver = []\<rparr>] = [''D'', ''B'']
   \<and> lite_script (\<lambda>m k. Inr (Some [[0, 1, 0]]))
        (\<lambda>a. if a = ''D'' then Inr [(0, 0)] else Inr [(3, 4)])
        (\<lambda>x n. real_of_int \<lfloor>x * 10 ^ n + 1 / 2\<rfloor> / 10 ^ n) True ''D''
        [[], [(''Stop 1'', ''A'')]] =
      Inr (None,
        \<lparr>solver_calls = [([[0, 555], [555, 0]], 1)], messages = [Success ''Routes optimized!''],
         route_paths = [[], [''Depot'', ''Stop 1'', ''Depot'']],
         route_addresses = [[], [''D'', ''A'', ''D'']],
         route_stats = [\<lparr>distance = 0, time = 0, score = Underused\<rparr>,
                        \<lparr>distance = 1110, time = 1665, score = Light\<rparr>],
         geocode_cache = [''A'', ''D'']\<rparr>)
   \<and> \<not> blank ''D'' \<and> \<not> blank ''A'' \<and> \<not> blank ''B''
   \<and> lite_script (\<lambda>m k. Inr (Some [[0, 1, 0]])) (\<lambda>a. Inr [(0, 0)])
        (\<lambda>x n. real_of_int \<lfloor>x * 10 ^ n + 1 / 2\<rfloor> / 10 ^ n) True ''  ''
        [[], [(''Stop 1'', ''A'')]] = Inl []"
  using blank_stops_filtered
    [where depot = "''D''"
       and stops = "[(''Stop 1'', ''A''), (''Stop 2'', ''  ''), (''Stop 3'', [])]"
       and pstops = "[\<lparr>address = ''  '', time_window = ''9:00'', load = 10, driver = []\<rparr>,
          \<lparr>address = ''B'', time_window = ''9:00'', load = 10, driver = []\<rparr>]"
       and solve_vrp = "\<lambda>m k. Inr (Some [[0, 1, 0]])"
       and gm = "\<lambda>a. if a = ''D'' then Inr [(0, 0)] else Inr [(3, 4)]"
       and py_round = "\<lambda>x n. real_of_int \<lfloor>x * 10 ^ n + 1 / 2\<rfloor> / 10 ^ n" and rtd = True
       and fleet = "[[], [(''Stop 1'', ''A'')]]"
       and out = "(None,
        \<lparr>solver_calls = [([[0, 555], [555, 0]], 1)], messages = [Success ''Routes optimized!''],
         route_paths = [[], [''Depot'', ''Stop 1'', ''Depot'']],
         route_addresses = [[], [''D'', ''A'', ''D'']],
         route_stats = [\<lparr>distance = 0, time = 0, score = Underused\<rparr>,
                        \<lparr>distance = 1110, time = 1665, score = Light\<rparr>],
         geocode_cache = [''A'', ''D'']\<rparr>)"]
  by (simp add: lite_script_def example_geocode example_lite_fleet geocode_address_def
        strip_def lstrip_def rstrip_def blank_def isspace_def)

subsection \<open>The distance matrix of Lite\<close>

text \<open>
  Claim C9. The construction of Lite's distance matrix succeeds only when every address
  of the list geocodes. The handler builds the matrix only for a list of at least two
  addresses; there, if \<^verbatim>\<open>geocode_address\<close> returns None for some address, the
  comprehension subscripts None: the construction raises TypeError and the vehicle's
  iteration ends with that exception in the state the geocoding has left (the warnings
  of the geocoding shown, the cache filled), before the solver is called and with
  nothing recorded; the whole handler ends with an exception for every fleet that holds
  such a vehicle. No guard and no substitute value stands in between. If every address
  geocodes, the construction returns a matrix.
\<close>

theorem missing_coordinate_aborts:
  "(2 \<le> length (address_list depot stops)
      \<and> (\<exists>a \<in> set (address_list depot stops). fst (geocode_address gm a) = None)
    \<longrightarrow> dist_matrix (map (fst \<circ> geocode_address gm) (address_list depot stops)) = Inl TypeError
        \<and> lite_vehicle solve_vrp gm py_round rtd depot stops st
            = (Some TypeError, snd (lite_coords gm (address_list depot stops) st))
        \<and> solver_calls (snd (lite_vehicle solve_vrp gm py_round rtd depot stops st))
            = solver_calls st
        \<and> route_paths (snd (lite_vehicle solve_vrp gm py_round rtd depot stops st))
            = route_paths st
        \<and> route_addresses (snd (lite_vehicle solve_vrp gm py_round rtd depot stops st))
            = route_addresses st
        \<and> route_stats (snd (lite_vehicle solve_vrp gm py_round rtd depot stops st))
            = route_stats st
        \<and> (stops \<in> set fleet
             \<longrightarrow> fst (lite_optimize_now solve_vrp gm py_round rtd depot fleet) \<noteq> None))
   \<and> (2 \<le> length (address_list depot stops)
      \<and> (\<forall>a \<in> set (address_list depot stops). fst (geocode_address gm a) \<noteq> None)
    \<longrightarrow> (\<exists>m. dist_matrix (map (fst \<circ> geocode_address gm) (address_list depot stops)) = Inr m))"
proof (intro conjI impI)
  assume a: "2 \<le> length (address_list depot stops)
      \<and> (\<exists>a \<in> set (address_list depot stops). fst (geocode_address gm a) = None)"
  then have a1: "2 \<le> length (address_list depot stops)"
    and a2: "\<exists>a \<in> set (address_list depot stops). fst (geocode_address gm a) = None"
    by simp_all
  from a2 have "None \<in> set (map (fst \<circ> geocode_address gm) (address_list depot stops))"
    by (auto simp: image_iff) metis
  moreover from a1
  have "2 \<le> length (map (fst \<circ> geocode_address gm) (address_list depot stops))"
    by simp
  ultimately
  show "dist_matrix (map (fst \<circ> geocode_address gm) (address_list depot stops)) = Inl TypeError"
    by (rule dist_matrix_missing [rotated])
  show run: "lite_vehicle solve_vrp gm py_round rtd depot stops st
            = (Some TypeError, snd (lite_coords gm (address_list depot stops) st))"
    using a1 a2 by (rule lite_vehicle_missing)
  show "solver_calls (snd (lite_vehicle solve_vrp gm py_round rtd depot stops st))
            = solver_calls st"
    by (simp add: run lite_coords_frame)
  show "route_paths (snd (lite_vehicle solve_vrp gm py_round rtd depot stops st))
            = route_paths st"
    by (simp add: run lite_coords_frame)
  show "route_addresses (snd (lite_vehicle solve_vrp gm py_round rtd depot stops st))
            = route_addresses st"
    by (simp add: run lite_coords_frame)
  show "route_stats (snd (lite_vehicle solve_vrp gm py_round rtd depot stops st))
            = route_stats st"
    by (simp add: run lite_coords_frame)
  assume "stops \<in> set fleet"
  then have "fst (lite_vehicles solve_vrp gm py_round rtd depot fleet (lite_start depot)) \<noteq> None"
    using a1 a2 by (rule lite_vehicles_abort)
  then show "fst (lite_optimize_now solve_vrp gm py_round rtd depot fleet) \<noteq> None"
    by (simp add: lite_optimize_now_raised)
next
  assume a: "2 \<le> length (address_list depot stops)
      \<and> (\<forall>a \<in> set (address_list depot stops). fst (geocode_address gm a) \<noteq> None)"
  then have "None \<notin> set (map (fst \<circ> geocode_address gm) (address_list depot stops))"
    by (auto simp: image_iff)
  moreover from a
  have "2 \<le> length (map (fst \<circ> geocode_address gm) (address_list depot stops))"
    by simp
  ultimately
  show "\<exists>m. dist_matrix (map (fst \<circ> geocode_address gm) (address_list depot stops)) = Inr m"
    by (simp add: dist_matrix_Inr_iff)
qed

theorem missing_coordinate_aborts_witness:
  "address_list ''D'' [(''Stop 1'', ''A''), (''Stop 2'', ''A'')] = [''D'', ''A'', ''A'']
   \<and> geocode_address (\<lambda>a. if a = ''D'' then Inr [(0, 0)] else Inl (External ''timeout'')) ''A''
       = (None, [Geocoding_warning ''A'' (External ''timeout'')])
   \<and> lite_vehicle (\<lambda>m k. Inr (Some [[0, 1, 0]]))
        (\<lambda>a. if a = ''D'' then Inr [(0, 0)] else Inl (External ''timeout''))
        (\<lambda>x n. real_of_int \<lfloor>x * 10 ^ n + 1 / 2\<rfloor> / 10 ^ n) True ''D''
        [(''Stop 1'', ''A''), (''Stop 2'', ''A'')] (lite_start ''D'') =
      (Some TypeError,
       \<lparr>solver_calls = [], messages = [Geocoding_warning ''A'' (External ''timeout'')],
        route_paths = [], route_addresses = [], route_stats = [],
        geocode_cache = [''A'', ''D'']\<rparr>)
   \<and> fst (lite_optimize_now (\<lambda>m k. Inr (Some [[0, 1, 0]]))
        (\<lambda>a. if a = ''D'' then Inr [(0, 0)] else Inl (External ''timeout''))
        (\<lambda>x n. real_of_int \<lfloor>x * 10 ^ n + 1 / 2\<rfloor> / 10 ^ n) True ''D''
        [[], [(''Stop 1'', ''A''), (''Stop 2'', ''A'')]]) \<noteq> None
   \<and> dist_matrix (map (fst \<circ> geocode_address (\<lambda>a. if a = ''D'' then Inr [(0, 0)] else Inr [(3, 4)]))
        (address_list ''D'' [(''Stop 1'', ''A'')])) = Inr [[0, 555], [555, 0]]"
proof -
  have lists: "address_list ''D'' [(''Stop 1'', ''A''), (''Stop 2'', ''A'')] = [''D'', ''A'', ''A'']"
    by (simp add: address_list_nonblank blank_def isspace_def)
  have g: "geocode_address (\<lambda>a. if a = ''D'' then Inr [(0, 0)] else Inl (External ''timeout'')) ''A''
       = (None, [Geocoding_warning ''A'' (External ''timeout'')])"
    "geocode_address (\<lambda>a. if a = ''D'' then Inr [(0, 0)] else Inl (External ''timeout'')) ''D''
       = (Some (0, 0), [])"
    by (simp_all add: geocode_address_def strip_def lstrip_def rstrip_def isspace_def)
  show ?thesis
    using missing_coordinate_aborts
      [where depot = "''D''" and stops = "[(''Stop 1'', ''A''), (''Stop 2'', ''A'')]"
         and gm = "\<lambda>a. if a = ''D'' then Inr [(0, 0)] else Inl (External ''timeout'')"
         and solve_vrp = "\<lambda>m k. Inr (Some [[0, 1, 0]])"
         and py_round = "\<lambda>x n. real_of_int \<lfloor>x * 10 ^ n + 1 / 2\<rfloor> / 10 ^ n"
         and rtd = True and st = "lite_start ''D''"
         and fleet = "[[], [(''Stop 1'', ''A''), (''Stop 2'', ''A'')]]"]
      missing_coordinate_aborts
      [where depot = "''D''" and stops = "[(''Stop 1'', ''A'')]"
         and gm = "\<lambda>a. if a = ''D'' then Inr [(0, 0)] else Inr [(3, 4)]"]
    by (simp add: lists g lru_geocode_address_def lite_start_def example_lite_matrix)
qed

text \<open>
  Claim C8. For every list of coordinates that all geocoded, Lite's construction
  returns a matrix with as many rows as coordinates, every row as long, with 0 on the
  diagonal and no negative entry.
\<close>

theorem dist_matrix_wellformed:
  "\<exists>m. dist_matrix (map Some cs) = Inr m
       \<and> length m = length cs
       \<and> (\<forall>i < length cs. length (m ! i) = length cs \<and> m ! i ! i = 0
            \<and> (\<forall>j < length cs. 0 \<le> m ! i ! j))"
  by (simp add: dist_matrix_total)

theorem dist_matrix_wellformed_witness:
  "dist_matrix [Some (0, 0), Some (3, 4)] = Inr [[0, 555], [555, 0]]
   \<and> dist_matrix (map Some [(0, 0), (3, 4)]) = Inr [[0, 555], [555, 0]]"
proof -
  have s: "sqrt 25 = 5" by (rule real_sqrt_unique) simp_all
  show ?thesis
    using dist_matrix_wellformed [of "[(0, 0), (3, 4)]"]
    by (simp add: dist_matrix_def cell_def upt_rec s)
qed

subsection \<open>The figures of a route\<close>




subsection \<open>Duration and load band\<close>




subsection \<open>Pairs without a travel cost\<close>

lemma element_row_Inl:
  "comprehension (\<lambda>e. case e of None \<Rightarrow> Inl KeyError | Some v \<Rightarrow> Inr (real_of_int v / 1000)) row
     = Inl e \<Longrightarrow> e = KeyError"
proof (induction row)
  case Nil
  then show ?case by simp
next
  case (Cons a row)
  then show ?case by (cases a) (simp_all split: sum.splits)
qed

lemma get_distance_matrix_missing:
  assumes "api addresses = Inr rows" and "i < length rows" and "j < length (rows ! i)"
    and "rows ! i ! j = None"
  shows "get_distance_matrix api addresses = Inl KeyError"
proof -
  let ?f = "\<lambda>e. case e of None \<Rightarrow> Inl KeyError | Some v \<Rightarrow> Inr (real_of_int v / 1000)"
  have row: "comprehension ?f (rows ! i) = Inl KeyError"
  proof (rule comprehension_error [where x = "rows ! i ! j"])
    show "rows ! i ! j \<in> set (rows ! i)" using assms(3) by simp
    show "?f (rows ! i ! j) = Inl KeyError" using assms(4) by simp
    show "\<And>y e'. y \<in> set (rows ! i) \<Longrightarrow> ?f y = Inl e' \<Longrightarrow> e' = KeyError"
      by (simp split: option.splits)
  qed
  have "comprehension (comprehension ?f) rows = Inl KeyError"
  proof (rule comprehension_error [where x = "rows ! i"])
    show "rows ! i \<in> set rows" using assms(2) by simp
    show "comprehension ?f (rows ! i) = Inl KeyError" by (rule row)
    show "\<And>y e'. y \<in> set rows \<Longrightarrow> comprehension ?f y = Inl e' \<Longrightarrow> e' = KeyError"
      by (rule element_row_Inl)
  qed
  with assms(1) show ?thesis by (simp add: get_distance_matrix_def)
qed

lemma get_distance_matrix_entries:
  assumes "api addresses = Inr rows" and "get_distance_matrix api addresses = Inr m"
    and "i < length rows" and "j < length (rows ! i)"
  shows "\<exists>v. rows ! i ! j = Some v \<and> m ! i ! j = real_of_int v / 1000"
proof -
  let ?f = "\<lambda>e. case e of None \<Rightarrow> Inl KeyError | Some v \<Rightarrow> Inr (real_of_int v / 1000)"
  from assms(1,2) have c: "comprehension (comprehension ?f) rows = Inr m"
    by (simp add: get_distance_matrix_def)
  from c assms(3) have "comprehension ?f (rows ! i) = Inr (m ! i)" by (rule comprehension_nth)
  from this assms(4) have "?f (rows ! i ! j) = Inr (m ! i ! j)" by (rule comprehension_nth)
  then show ?thesis by (cases "rows ! i ! j") simp_all
qed

text \<open>
  Claim C3 says that for a pair of nodes whose travel cost cannot be obtained the
  matrix handed to the solver holds a designated sentinel. The code has no sentinel:
  when the provider returns an element without a distance, Pro's
  \<^verbatim>\<open>get_distance_matrix\<close> raises KeyError, the handler ends with it and the solver is
  never called, so no matrix is handed over at all.
\<close>

theorem unreachable_pair_counterexample:
  "get_distance_matrix (\<lambda>a. Inr [[Some 0, None], [Some 1200, Some 0]]) [''D'', ''A'']
     = Inl KeyError
   \<and> pro_route (\<lambda>m k. Inr (Some [[0, 1, 0]])) (\<lambda>a. Inr [[Some 0, None], [Some 1200, Some 0]])
        (\<lambda>x n. real_of_int \<lfloor>x * 10 ^ n + 1 / 2\<rfloor> / 10 ^ n) (1 / 4) ''D''
        (''Route 1'', [\<lparr>address = ''A'', time_window = ''9:00'', load = 10, driver = []\<rparr>])
        pro_start = (Some KeyError, pro_start)
   \<and> solver_calls pro_start = []"
  by (simp add: get_distance_matrix_def pro_route_def pro_addresses_nonblank blank_def
        isspace_def pro_start_def)

text \<open>
  Claim C3, as the code has it. Neither page has a sentinel, and the two pages differ.

  In Pro an element without a distance makes \<^verbatim>\<open>get_distance_matrix\<close> raise KeyError,
  and an exception of \<^verbatim>\<open>get_distance_matrix\<close> ends the route's iteration before the
  solver is called, so no matrix with such a pair reaches the solver; when the function
  returns a matrix, every entry is the distance the provider gave for that pair, in
  kilometres.

  Lite obtains no travel cost at all. The matrix it hands to the solver holds, for every
  two different nodes, the straight-line distance of their coordinates times 111: a
  finite figure that depends on the two coordinates only, whether or not one can travel
  between them. A node without coordinates makes the construction of the matrix raise
  TypeError, before the solver is called.
\<close>

theorem unreachable_pair_raises:
  "(api addresses = Inr rows \<and> i < length rows \<and> j < length (rows ! i) \<and> rows ! i ! j = None
    \<longrightarrow> get_distance_matrix api addresses = Inl KeyError)
   \<and> (api addresses = Inr rows \<and> get_distance_matrix api addresses = Inr m'
       \<and> i < length rows \<and> j < length (rows ! i)
    \<longrightarrow> (\<exists>v. rows ! i ! j = Some v \<and> m' ! i ! j = real_of_int v / 1000))
   \<and> (2 \<le> length (pro_addresses depot pstops)
       \<and> get_distance_matrix api (pro_addresses depot pstops) = Inl e
    \<longrightarrow> pro_route solve_vrp api py_round fuel_cost depot (route, pstops) pst = (Some e, pst))
   \<and> (2 \<le> length (address_list depot stops)
       \<and> dist_matrix (map (fst \<circ> geocode_address gm) (address_list depot stops)) = Inr m
    \<longrightarrow> solver_calls (snd (lite_vehicle solve_vrp gm py_round rtd depot stops st))
          = solver_calls st @ [(m, 1)]
        \<and> (\<forall>a < length (address_list depot stops). \<forall>b < length (address_list depot stops).
             a \<noteq> b \<longrightarrow>
               (\<exists>ca cb. fst (geocode_address gm (address_list depot stops ! a)) = Some ca
                  \<and> fst (geocode_address gm (address_list depot stops ! b)) = Some cb
                  \<and> m ! a ! b = sqrt ((fst ca - fst cb)\<^sup>2 + (snd ca - snd cb)\<^sup>2) * 111)))
   \<and> (2 \<le> length (address_list depot stops)
       \<and> (\<exists>a \<in> set (address_list depot stops). fst (geocode_address gm a) = None)
    \<longrightarrow> fst (lite_vehicle solve_vrp gm py_round rtd depot stops st) = Some TypeError
        \<and> solver_calls (snd (lite_vehicle solve_vrp gm py_round rtd depot stops st))
            = solver_calls st)"
proof (intro conjI impI allI)
  assume "api addresses = Inr rows \<and> i < length rows \<and> j < length (rows ! i) \<and> rows ! i ! j = None"
  then have "api addresses = Inr rows" "i < length rows" "j < length (rows ! i)"
    "rows ! i ! j = None" by simp_all
  then show "get_distance_matrix api addresses = Inl KeyError"
    by (rule get_distance_matrix_missing)
next
  assume "api addresses = Inr rows \<and> get_distance_matrix api addresses = Inr m'
       \<and> i < length rows \<and> j < length (rows ! i)"
  then have "api addresses = Inr rows" "get_distance_matrix api addresses = Inr m'"
    "i < length rows" "j < length (rows ! i)" by simp_all
  then show "\<exists>v. rows ! i ! j = Some v \<and> m' ! i ! j = real_of_int v / 1000"
    by (rule get_distance_matrix_entries)
next
  assume "2 \<le> length (pro_addresses depot pstops)
       \<and> get_distance_matrix api (pro_addresses depot pstops) = Inl e"
  then show "pro_route solve_vrp api py_round fuel_cost depot (route, pstops) pst = (Some e, pst)"
    by (simp add: pro_route_missing)
next
  assume "2 \<le> length (address_list depot stops)
       \<and> dist_matrix (map (fst \<circ> geocode_address gm) (address_list depot stops)) = Inr m"
  then show "solver_calls (snd (lite_vehicle solve_vrp gm py_round rtd depot stops st))
          = solver_calls st @ [(m, 1)]"
    by (simp add: lite_vehicle_calls)
next
  fix a b
  assume dm: "2 \<le> length (address_list depot stops)
       \<and> dist_matrix (map (fst \<circ> geocode_address gm) (address_list depot stops)) = Inr m"
    and a: "a < length (address_list depot stops)"
    and b: "b < length (address_list depot stops)" and ab: "a \<noteq> b"
  from dm have "dist_matrix (map (fst \<circ> geocode_address gm) (address_list depot stops)) = Inr m"
    by simp
  from this a b ab
  show "\<exists>ca cb. fst (geocode_address gm (address_list depot stops ! a)) = Some ca
                  \<and> fst (geocode_address gm (address_list depot stops ! b)) = Some cb
                  \<and> m ! a ! b = sqrt ((fst ca - fst cb)\<^sup>2 + (snd ca - snd cb)\<^sup>2) * 111"
    by (rule lite_matrix_entry)
next
  assume a: "2 \<le> length (address_list depot stops)
       \<and> (\<exists>a \<in> set (address_list depot stops). fst (geocode_address gm a) = None)"
  then have run: "lite_vehicle solve_vrp gm py_round rtd depot stops st
            = (Some TypeError, snd (lite_coords gm (address_list depot stops) st))"
    by (simp add: lite_vehicle_missing)
  show "fst (lite_vehicle solve_vrp gm py_round rtd depot stops st) = Some TypeError"
    by (simp add: run)
  show "solver_calls (snd (lite_vehicle solve_vrp gm py_round rtd depot stops st))
            = solver_calls st"
    by (simp add: run lite_coords_frame)
qed

theorem unreachable_pair_raises_witness:
  "get_distance_matrix (\<lambda>a. Inr [[Some 0, None], [Some 1200, Some 0]]) [''D'', ''A'']
     = Inl KeyError
   \<and> get_distance_matrix (\<lambda>a. Inr [[Some 0, Some 1234], [Some 1234, Some 0]]) [''D'', ''A'']
     = Inr [[0, 617 / 500], [617 / 500, 0]]
   \<and> pro_route (\<lambda>m k. Inr (Some [[0, 1, 0]])) (\<lambda>a. Inr [[Some 0, None], [Some 1200, Some 0]])
        (\<lambda>x n. real_of_int \<lfloor>x * 10 ^ n + 1 / 2\<rfloor> / 10 ^ n) (1 / 4) ''D''
        (''Route 1'', [\<lparr>address = ''A'', time_window = ''9:00'', load = 10, driver = []\<rparr>])
        pro_start = (Some KeyError, pro_start)
   \<and> solver_calls (snd (lite_vehicle (\<lambda>m k. Inr (Some [[0, 1, 0]]))
        (\<lambda>a. if a = ''D'' then Inr [(0, 0)] else Inr [(3, 4)])
        (\<lambda>x n. real_of_int \<lfloor>x * 10 ^ n + 1 / 2\<rfloor> / 10 ^ n) True ''D'' [(''Stop 1'', ''A'')]
        (lite_start ''D''))) = [([[0, 555], [555, 0]], 1)]
   \<and> sqrt ((0 - 3)\<^sup>2 + (0 - 4)\<^sup>2) * 111 = 555
   \<and> fst (lite_vehicle (\<lambda>m k. Inr (Some [[0, 1, 0]]))
        (\<lambda>a. if a = ''D'' then Inr [(0, 0)] else Inr [])
        (\<lambda>x n. real_of_int \<lfloor>x * 10 ^ n + 1 / 2\<rfloor> / 10 ^ n) True ''D'' [(''Stop 1'', ''A'')]
        (lite_start ''D'')) = Some TypeError
   \<and> solver_calls (snd (lite_vehicle (\<lambda>m k. Inr (Some [[0, 1, 0]]))
        (\<lambda>a. if a = ''D'' then Inr [(0, 0)] else Inr [])
        (\<lambda>x n. real_of_int \<lfloor>x * 10 ^ n + 1 / 2\<rfloor> / 10 ^ n) True ''D'' [(''Stop 1'', ''A'')]
        (lite_start ''D''))) = []"
proof -
  have s: "sqrt 25 = 5" by (rule real_sqrt_unique) simp_all
  have g: "geocode_address (\<lambda>a. if a = ''D'' then Inr [(0, 0)] else Inr []) ''A'' = (None, [])"
    by (simp add: geocode_address_def)
  show ?thesis
    using unreachable_pair_raises
      [where api = "\<lambda>a. Inr [[Some 0, None], [Some 1200, Some 0]]" and addresses = "[''D'', ''A'']"
         and rows = "[[Some 0, None], [Some 1200, Some 0]]" and i = 0 and j = 1
         and depot = "''D''"
         and pstops = "[\<lparr>address = ''A'', time_window = ''9:00'', load = 10, driver = []\<rparr>]"
         and e = KeyError and solve_vrp = "\<lambda>m k. Inr (Some [[0, 1, 0]])"
         and py_round = "\<lambda>x n. real_of_int \<lfloor>x * 10 ^ n + 1 / 2\<rfloor> / 10 ^ n"
         and fuel_cost = "1 / 4" and route = "''Route 1''" and pst = pro_start
         and stops = "[(''Stop 1'', ''A'')]"
         and gm = "\<lambda>a. if a = ''D'' then Inr [(0, 0)] else Inr []" and rtd = True
         and st = "lite_start ''D''"]
      unreachable_pair_raises
      [where api = "\<lambda>a. Inr [[Some 0, Some 1234], [Some 1234, Some 0]]"
         and addresses = "[''D'', ''A'']"
         and rows = "[[Some 0, Some 1234], [Some 1234, Some 0]]" and i = 0 and j = 1
         and m' = "[[0, 617 / 500], [617 / 500, 0]]"
         and depot = "''D''" and stops = "[(''Stop 1'', ''A'')]"
         and gm = "\<lambda>a. if a = ''D'' then Inr [(0, 0)] else Inr [(3, 4)]"
         and m = "[[0, 555], [555, 0]]"
         and solve_vrp = "\<lambda>m k. Inr (Some [[0, 1, 0]])"
         and py_round = "\<lambda>x n. real_of_int \<lfloor>x * 10 ^ n + 1 / 2\<rfloor> / 10 ^ n"
         and rtd = True and st = "lite_start ''D''"]
      example_lite_matrix
    by (simp add: get_distance_matrix_def pro_addresses_nonblank address_list_nonblank blank_def
          isspace_def g s lite_start_def)
qed

subsection \<open>The calls of the solver\<close>

lemma first_route_Inl_iff:
  "first_route r = Inl e \<longleftrightarrow>
     r = Inl e \<or> (r = Inr None \<and> e = TypeError) \<or> (r = Inr (Some []) \<and> e = IndexError)"
  by (auto simp: first_route_def subscript_def norm_index_def
        split: sum.splits option.splits if_splits)

lemma lite_vehicle_step:
  "\<exists>cs. solver_calls (snd (lite_vehicle solve_vrp gm py_round rtd depot stops st))
          = solver_calls st @ cs
        \<and> (\<forall>c \<in> set cs. snd c = 1)
        \<and> (fst (lite_vehicle solve_vrp gm py_round rtd depot stops st) = None
             \<longrightarrow> length cs = (if 2 \<le> length (address_list depot stops) then 1 else 0))"
proof (cases "2 \<le> length (address_list depot stops)")
  case False
  then show ?thesis by (simp add: lite_vehicle_no_stops record_route_def)
next
  case True
  show ?thesis
  proof (cases "dist_matrix (map (fst \<circ> geocode_address gm) (address_list depot stops))")
    case (Inl e)
    with True show ?thesis
      by (simp add: lite_vehicle_def case_prod_unfold lite_coords_value lite_coords_frame)
  next
    case (Inr m)
    with True have "solver_calls (snd (lite_vehicle solve_vrp gm py_round rtd depot stops st))
           = solver_calls st @ [(m, 1)]"
      by (rule lite_vehicle_calls)
    with True show ?thesis by simp
  qed
qed

lemma lite_vehicles_calls:
  "\<exists>cs. solver_calls (snd (lite_vehicles solve_vrp gm py_round rtd depot fleet st))
          = solver_calls st @ cs
        \<and> (\<forall>c \<in> set cs. snd c = 1)
        \<and> (fst (lite_vehicles solve_vrp gm py_round rtd depot fleet st) = None
             \<longrightarrow> length cs = length (filter (\<lambda>stops. 2 \<le> length (address_list depot stops)) fleet))"
proof (induction fleet arbitrary: st)
  case Nil
  then show ?case by simp
next
  case (Cons x xs)
  obtain r st1 where step: "lite_vehicle solve_vrp gm py_round rtd depot x st = (r, st1)"
    by (cases "lite_vehicle solve_vrp gm py_round rtd depot x st")
  obtain cs where cs: "solver_calls st1 = solver_calls st @ cs" "\<forall>c \<in> set cs. snd c = 1"
    "r = None \<longrightarrow> length cs = (if 2 \<le> length (address_list depot x) then 1 else 0)"
    using lite_vehicle_step [of solve_vrp gm py_round rtd depot x st] step by auto
  show ?case
  proof (cases r)
    case (Some e)
    with step cs show ?thesis by simp
  next
    case None
    obtain ds where ds:
      "solver_calls (snd (lite_vehicles solve_vrp gm py_round rtd depot xs st1))
         = solver_calls st1 @ ds"
      "\<forall>c \<in> set ds. snd c = 1"
      "fst (lite_vehicles solve_vrp gm py_round rtd depot xs st1) = None
         \<longrightarrow> length ds = length (filter (\<lambda>stops. 2 \<le> length (address_list depot stops)) xs)"
      using Cons.IH [of st1] by auto
    have f1: "solver_calls (snd (lite_vehicles solve_vrp gm py_round rtd depot (x # xs) st))
            = solver_calls st @ (cs @ ds)"
      using step None cs(1) ds(1) by simp
    have f2: "\<forall>c \<in> set (cs @ ds). snd c = 1" using cs(2) ds(2) by auto
    have f3: "fst (lite_vehicles solve_vrp gm py_round rtd depot (x # xs) st) = None
         \<longrightarrow> length (cs @ ds)
             = length (filter (\<lambda>stops. 2 \<le> length (address_list depot stops)) (x # xs))"
      using step None cs(3) ds(3) by simp
    show ?thesis
      by (rule exI [of _ "cs @ ds"]) (insert f1 f2 f3, simp)
  qed
qed

lemma pro_route_step:
  "\<exists>cs. solver_calls (snd (pro_route solve_vrp api py_round fuel_cost depot entry st))
          = solver_calls st @ cs
        \<and> (\<forall>c \<in> set cs. snd c = 1)
        \<and> (fst (pro_route solve_vrp api py_round fuel_cost depot entry st) = None
             \<longrightarrow> length cs = (if 2 \<le> length (pro_addresses depot (snd entry)) then 1 else 0))"
proof (cases "2 \<le> length (pro_addresses depot (snd entry))")
  case False
  then show ?thesis by (simp add: pro_route_def)
next
  case True
  show ?thesis
  proof (cases "get_distance_matrix api (pro_addresses depot (snd entry))")
    case (Inl e)
    with True show ?thesis by (simp add: pro_route_def)
  next
    case (Inr m)
    with True
    have "solver_calls (snd (pro_route solve_vrp api py_round fuel_cost depot
                               (fst entry, snd entry) st))
           = solver_calls st @ [(m, 1)]"
      by (rule pro_route_calls)
    with True show ?thesis by simp
  qed
qed

lemma pro_routes_calls:
  "\<exists>cs. solver_calls (snd (pro_routes solve_vrp api py_round fuel_cost depot routes st))
          = solver_calls st @ cs
        \<and> (\<forall>c \<in> set cs. snd c = 1)
        \<and> (fst (pro_routes solve_vrp api py_round fuel_cost depot routes st) = None
             \<longrightarrow> length cs
                 = length (filter (\<lambda>entry. 2 \<le> length (pro_addresses depot (snd entry))) routes))"
proof (induction routes arbitrary: st)
  case Nil
  then show ?case by simp
next
  case (Cons x xs)
  obtain r st1 where step: "pro_route solve_vrp api py_round fuel_cost depot x st = (r, st1)"
    by (cases "pro_route solve_vrp api py_round fuel_cost depot x st")
  obtain cs where cs: "solver_calls st1 = solver_calls st @ cs" "\<forall>c \<in> set cs. snd c = 1"
    "r = None \<longrightarrow> length cs = (if 2 \<le> length (pro_addresses depot (snd x)) then 1 else 0)"
    using pro_route_step [of solve_vrp api py_round fuel_cost depot x st] step by auto
  show ?case
  proof (cases r)
    case (Some e)
    with step cs show ?thesis by simp
  next
    case None
    obtain ds where ds:
      "solver_calls (snd (pro_routes solve_vrp api py_round fuel_cost depot xs st1))
         = solver_calls st1 @ ds"
      "\<forall>c \<in> set ds. snd c = 1"
      "fst (pro_routes solve_vrp api py_round fuel_cost depot xs st1) = None
         \<longrightarrow> length ds
             = length (filter (\<lambda>entry. 2 \<le> length (pro_addresses depot (snd entry))) xs)"
      using Cons.IH [of st1] by auto
    have f1: "solver_calls (snd (pro_routes solve_vrp api py_round fuel_cost depot (x # xs) st))
            = solver_calls st @ (cs @ ds)"
      using step None cs(1) ds(1) by simp
    have f2: "\<forall>c \<in> set (cs @ ds). snd c = 1" using cs(2) ds(2) by auto
    have f3: "fst (pro_routes solve_vrp api py_round fuel_cost depot (x # xs) st) = None
         \<longrightarrow> length (cs @ ds)
             = length (filter (\<lambda>entry. 2 \<le> length (pro_addresses depot (snd entry))) (x # xs))"
      using step None cs(3) ds(3) by simp
    show ?thesis
      by (rule exI [of _ "cs @ ds"]) (insert f1 f2 f3, simp)
  qed
qed

lemma lite_optimize_now_calls:
  "solver_calls (snd (lite_optimize_now solve_vrp gm py_round rtd depot fleet))
     = solver_calls (snd (lite_vehicles solve_vrp gm py_round rtd depot fleet (lite_start depot)))"
  by (simp add: lite_optimize_now_def split: prod.splits option.splits)

lemma pro_optimize_now_calls:
  "pro_optimize_now solve_vrp gm api py_round fuel_cost depot routes = Some (r, st) \<Longrightarrow>
     r = fst (pro_routes solve_vrp api py_round fuel_cost depot routes pro_start)
     \<and> solver_calls st
         = solver_calls (snd (pro_routes solve_vrp api py_round fuel_cost depot routes pro_start))"
  by (auto simp: pro_optimize_now_def split: prod.splits option.splits)

lemma has_stop_iff:
  "2 \<le> length (address_list depot stops) \<longleftrightarrow> (\<exists>s \<in> set stops. \<not> blank (snd s))"
  "2 \<le> length (pro_addresses depot pstops) \<longleftrightarrow> (\<exists>s \<in> set pstops. \<not> blank (address s))"
proof -
  have *: "1 \<le> length (filter P xs) \<longleftrightarrow> (\<exists>x \<in> set xs. P x)" for P and xs :: "'a list"
    by (induction xs) auto
  show "2 \<le> length (address_list depot stops) \<longleftrightarrow> (\<exists>s \<in> set stops. \<not> blank (snd s))"
    using * [of "\<lambda>s. \<not> blank (snd s)" stops] by (simp add: address_list_nonblank)
  show "2 \<le> length (pro_addresses depot pstops) \<longleftrightarrow> (\<exists>s \<in> set pstops. \<not> blank (address s))"
    using * [of "\<lambda>s. \<not> blank (address s)" pstops] by (simp add: pro_addresses_nonblank)
qed

text \<open>
  Claim C7 says that for every vehicle or route \<^verbatim>\<open>solve_vrp\<close> is invoked once, with
  second argument 1. A vehicle without a stop is handled without any call: Lite's
  handler for a fleet of one vehicle with no stops ends normally, records the empty
  route and has called the solver not once.
\<close>

theorem one_call_per_vehicle_counterexample:
  "fst (lite_optimize_now (\<lambda>m k. Inr (Some [[0]])) (\<lambda>a. Inr [(0, 0)])
          (\<lambda>x n. real_of_int \<lfloor>x * 10 ^ n + 1 / 2\<rfloor> / 10 ^ n) True ''D'' [[]]) = None
   \<and> solver_calls (snd (lite_optimize_now (\<lambda>m k. Inr (Some [[0]])) (\<lambda>a. Inr [(0, 0)])
          (\<lambda>x n. real_of_int \<lfloor>x * 10 ^ n + 1 / 2\<rfloor> / 10 ^ n) True ''D'' [[]])) = []
   \<and> route_paths (snd (lite_optimize_now (\<lambda>m k. Inr (Some [[0]])) (\<lambda>a. Inr [(0, 0)])
          (\<lambda>x n. real_of_int \<lfloor>x * 10 ^ n + 1 / 2\<rfloor> / 10 ^ n) True ''D'' [[]])) = [[]]"
  by (simp add: lite_optimize_now_def lite_vehicle_def address_list_def record_route_def
        lite_start_def)

text \<open>
  Claim C7, as the code has it. Every call either page makes to the solver passes the
  vehicle count 1, whether the handler ends normally or with an exception. The
  iteration for a vehicle (Lite) or a route (Pro) that has a stop with a non-blank
  address and whose matrix is obtained calls \<^verbatim>\<open>solve_vrp\<close> exactly once, with second
  argument 1; the iteration for a vehicle or route without such a stop calls it not at
  all. So in a handler run that ends normally the number of calls is the number of
  vehicles or routes that have a stop with a non-blank address.
\<close>

theorem solver_called_with_one_vehicle:
  "(\<forall>c \<in> set (solver_calls (snd (lite_optimize_now solve_vrp gm py_round rtd depot fleet))).
       snd c = 1)
   \<and> (fst (lite_optimize_now solve_vrp gm py_round rtd depot fleet) = None
      \<longrightarrow> length (solver_calls (snd (lite_optimize_now solve_vrp gm py_round rtd depot fleet)))
          = length (filter (\<lambda>stops. \<exists>s \<in> set stops. \<not> blank (snd s)) fleet))
   \<and> (pro_optimize_now solve_vrp gm' api py_round fuel_cost depot routes = Some (r, pst)
      \<longrightarrow> (\<forall>c \<in> set (solver_calls pst). snd c = 1)
        \<and> (r = None
           \<longrightarrow> length (solver_calls pst)
               = length (filter (\<lambda>entry. \<exists>s \<in> set (snd entry). \<not> blank (address s)) routes)))
   \<and> ((\<exists>s \<in> set stops. \<not> blank (snd s))
        \<and> dist_matrix (map (fst \<circ> geocode_address gm) (address_list depot stops)) = Inr m
      \<longrightarrow> solver_calls (snd (lite_vehicle solve_vrp gm py_round rtd depot stops st))
          = solver_calls st @ [(m, 1)])
   \<and> ((\<exists>s \<in> set pstops. \<not> blank (address s))
        \<and> get_distance_matrix api (pro_addresses depot pstops) = Inr m'
      \<longrightarrow> solver_calls (snd (pro_route solve_vrp api py_round fuel_cost depot (route, pstops) pst'))
          = solver_calls pst' @ [(m', 1)])
   \<and> (\<not> (\<exists>s \<in> set stops. \<not> blank (snd s))
      \<longrightarrow> solver_calls (snd (lite_vehicle solve_vrp gm py_round rtd depot stops st))
          = solver_calls st)
   \<and> (\<not> (\<exists>s \<in> set pstops. \<not> blank (address s))
      \<longrightarrow> solver_calls (snd (pro_route solve_vrp api py_round fuel_cost depot (route, pstops) pst'))
          = solver_calls pst')"
proof -
  obtain cs where cs:
    "solver_calls (snd (lite_vehicles solve_vrp gm py_round rtd depot fleet (lite_start depot)))
       = solver_calls (lite_start depot) @ cs"
    "\<forall>c \<in> set cs. snd c = 1"
    "fst (lite_vehicles solve_vrp gm py_round rtd depot fleet (lite_start depot)) = None
       \<longrightarrow> length cs = length (filter (\<lambda>stops. 2 \<le> length (address_list depot stops)) fleet)"
    using lite_vehicles_calls [of solve_vrp gm py_round rtd depot fleet "lite_start depot"]
    by auto
  have l1: "\<forall>c \<in> set (solver_calls (snd (lite_optimize_now solve_vrp gm py_round rtd depot fleet))).
       snd c = 1"
    using cs(1,2) by (simp add: lite_optimize_now_calls lite_start_def)
  have l2: "fst (lite_optimize_now solve_vrp gm py_round rtd depot fleet) = None
      \<longrightarrow> length (solver_calls (snd (lite_optimize_now solve_vrp gm py_round rtd depot fleet)))
          = length (filter (\<lambda>stops. \<exists>s \<in> set stops. \<not> blank (snd s)) fleet)"
    using cs(1,3)
    by (simp add: lite_optimize_now_calls lite_optimize_now_raised lite_start_def has_stop_iff)
  obtain ds where ds:
    "solver_calls (snd (pro_routes solve_vrp api py_round fuel_cost depot routes pro_start))
       = solver_calls pro_start @ ds"
    "\<forall>c \<in> set ds. snd c = 1"
    "fst (pro_routes solve_vrp api py_round fuel_cost depot routes pro_start) = None
       \<longrightarrow> length ds
           = length (filter (\<lambda>entry. 2 \<le> length (pro_addresses depot (snd entry))) routes)"
    using pro_routes_calls [of solve_vrp api py_round fuel_cost depot routes pro_start] by auto
  have p1: "pro_optimize_now solve_vrp gm' api py_round fuel_cost depot routes = Some (r, pst)
      \<longrightarrow> (\<forall>c \<in> set (solver_calls pst). snd c = 1)
        \<and> (r = None
           \<longrightarrow> length (solver_calls pst)
               = length (filter (\<lambda>entry. \<exists>s \<in> set (snd entry). \<not> blank (address s)) routes))"
    using ds by (auto simp: pro_start_def has_stop_iff dest!: pro_optimize_now_calls)
  have i1: "(\<exists>s \<in> set stops. \<not> blank (snd s))
        \<and> dist_matrix (map (fst \<circ> geocode_address gm) (address_list depot stops)) = Inr m
      \<longrightarrow> solver_calls (snd (lite_vehicle solve_vrp gm py_round rtd depot stops st))
          = solver_calls st @ [(m, 1)]"
  proof
    assume a: "(\<exists>s \<in> set stops. \<not> blank (snd s))
        \<and> dist_matrix (map (fst \<circ> geocode_address gm) (address_list depot stops)) = Inr m"
    then have "2 \<le> length (address_list depot stops)" by (simp add: has_stop_iff)
    moreover from a
    have "dist_matrix (map (fst \<circ> geocode_address gm) (address_list depot stops)) = Inr m"
      by simp
    ultimately show "solver_calls (snd (lite_vehicle solve_vrp gm py_round rtd depot stops st))
          = solver_calls st @ [(m, 1)]"
      by (rule lite_vehicle_calls)
  qed
  have i2: "(\<exists>s \<in> set pstops. \<not> blank (address s))
        \<and> get_distance_matrix api (pro_addresses depot pstops) = Inr m'
      \<longrightarrow> solver_calls (snd (pro_route solve_vrp api py_round fuel_cost depot (route, pstops) pst'))
          = solver_calls pst' @ [(m', 1)]"
  proof
    assume a: "(\<exists>s \<in> set pstops. \<not> blank (address s))
        \<and> get_distance_matrix api (pro_addresses depot pstops) = Inr m'"
    then have "2 \<le> length (pro_addresses depot pstops)" by (simp add: has_stop_iff)
    moreover from a
    have "get_distance_matrix api (pro_addresses depot pstops) = Inr m'" by simp
    ultimately
    show "solver_calls (snd (pro_route solve_vrp api py_round fuel_cost depot (route, pstops) pst'))
          = solver_calls pst' @ [(m', 1)]"
      by (rule pro_route_calls)
  qed
  have i3: "\<not> (\<exists>s \<in> set stops. \<not> blank (snd s))
      \<longrightarrow> solver_calls (snd (lite_vehicle solve_vrp gm py_round rtd depot stops st))
          = solver_calls st"
  proof
    assume "\<not> (\<exists>s \<in> set stops. \<not> blank (snd s))"
    then have "\<not> 2 \<le> length (address_list depot stops)" by (simp add: has_stop_iff)
    then have "length (address_list depot stops) < 2" by simp
    then show "solver_calls (snd (lite_vehicle solve_vrp gm py_round rtd depot stops st))
          = solver_calls st"
      by (simp add: lite_vehicle_no_stops record_route_def)
  qed
  have i4: "\<not> (\<exists>s \<in> set pstops. \<not> blank (address s))
      \<longrightarrow> solver_calls (snd (pro_route solve_vrp api py_round fuel_cost depot (route, pstops) pst'))
          = solver_calls pst'"
  proof
    assume "\<not> (\<exists>s \<in> set pstops. \<not> blank (address s))"
    then have "\<not> 2 \<le> length (pro_addresses depot pstops)" by (simp add: has_stop_iff)
    then have "length (pro_addresses depot pstops) < 2" by simp
    then
    show "solver_calls (snd (pro_route solve_vrp api py_round fuel_cost depot (route, pstops) pst'))
          = solver_calls pst'"
      by (simp add: pro_route_no_stops)
  qed
  from l1 l2 p1 i1 i2 i3 i4 show ?thesis by (intro conjI)
qed

theorem solver_called_with_one_vehicle_witness:
  "solver_calls (snd (lite_optimize_now (\<lambda>m k. Inr (Some [[0, 1, 0]]))
       (\<lambda>a. if a = ''D'' then Inr [(0, 0)] else Inr [(3, 4)])
       (\<lambda>x n. real_of_int \<lfloor>x * 10 ^ n + 1 / 2\<rfloor> / 10 ^ n) True ''D''
       [[], [(''Stop 1'', ''A'')]])) = [([[0, 555], [555, 0]], 1)]
   \<and> fst (lite_optimize_now (\<lambda>m k. Inr (Some [[0, 1, 0]]))
       (\<lambda>a. if a = ''D'' then Inr [(0, 0)] else Inr [(3, 4)])
       (\<lambda>x n. real_of_int \<lfloor>x * 10 ^ n + 1 / 2\<rfloor> / 10 ^ n) True ''D''
       [[], [(''Stop 1'', ''A'')]]) = None
   \<and> length (filter (\<lambda>stops. \<exists>s \<in> set stops. \<not> blank (snd s)) [[], [(''Stop 1'', ''A'')]]) = 1
   \<and> map_option (\<lambda>out. (fst out, solver_calls (snd out)))
        (pro_optimize_now (\<lambda>m k. Inr (Some [[0, 1, 0]])) (\<lambda>a. Inr [(0, 0)])
          (\<lambda>a. Inr [[Some 0, Some 1234], [Some 1234, Some 0]])
          (\<lambda>x n. real_of_int \<lfloor>x * 10 ^ n + 1 / 2\<rfloor> / 10 ^ n) (1 / 4) ''D''
          [(''Route 1'', [\<lparr>address = ''A'', time_window = ''9:00'', load = 10, driver = []\<rparr>]),
           (''Route 2'', [])])
       = Some (None, [([[0, 617 / 500], [617 / 500, 0]], 1)])"
  using solver_called_with_one_vehicle
    [where solve_vrp = "\<lambda>m k. Inr (Some [[0, 1, 0]])"
       and gm = "\<lambda>a. if a = ''D'' then Inr [(0, 0)] else Inr [(3, 4)]" and rtd = True
       and py_round = "\<lambda>x n. real_of_int \<lfloor>x * 10 ^ n + 1 / 2\<rfloor> / 10 ^ n"
       and depot = "''D''" and fleet = "[[], [(''Stop 1'', ''A'')]]"
       and gm' = "\<lambda>a. Inr [(0, 0)]"
       and api = "\<lambda>a. Inr [[Some 0, Some 1234], [Some 1234, Some 0]]" and fuel_cost = "1 / 4"
       and routes = "[(''Route 1'', [\<lparr>address = ''A'', time_window = ''9:00'', load = 10, driver = []\<rparr>]),
           (''Route 2'', [])]"
       and r = None
       and pst = "\<lparr>solver_calls = [([[0, 617 / 500], [617 / 500, 0]], 1)],
            messages = [Success ''Optimization complete!''],
            metrics = [''Route 1'' \<mapsto>
              \<lparr>path = [''D'', ''A'', ''D''], distance_km = 247 / 100, cost = 31 / 50,
               duration = 37 / 10\<rparr>]\<rparr>"
       and stops = "[(''Stop 1'', ''A'')]" and m = "[[0, 555], [555, 0]]"
       and pstops = "[\<lparr>address = ''A'', time_window = ''9:00'', load = 10, driver = []\<rparr>]"
       and m' = "[[0, 617 / 500], [617 / 500, 0]]" and route = "''Route 1''"
       and pst' = pro_start and st = "lite_start ''D''"]
  by (simp add: example_lite_fleet example_pro_fleet blank_def isspace_def)

subsection \<open>The depot\<close>





subsection \<open>A vehicle without stops\<close>

lemma render_route_entry:
  assumes "render_route py_round rtd addrs labels m p st = (None, st')"
  shows "\<exists>l a s. route_paths st' = route_paths st @ [l]
           \<and> route_addresses st' = route_addresses st @ [a]
           \<and> route_stats st' = route_stats st @ [s]"
  using render_route_done [OF assms] by (simp add: record_route_def)

lemma lite_vehicle_entry:
  assumes "lite_vehicle solve_vrp gm py_round rtd depot stops st = (None, st')"
  shows "\<exists>l a s. route_paths st' = route_paths st @ [l]
           \<and> route_addresses st' = route_addresses st @ [a]
           \<and> route_stats st' = route_stats st @ [s]
           \<and> (length (address_list depot stops) < 2
                \<longrightarrow> l = [] \<and> a = [] \<and> s = \<lparr>distance = 0, time = 0, score = Underused\<rparr>)"
proof (cases "length (address_list depot stops) < 2")
  case True
  with assms show ?thesis by (auto simp: lite_vehicle_no_stops record_route_def)
next
  case False
  then have two: "2 \<le> length (address_list depot stops)" by simp
  show ?thesis
  proof (cases "dist_matrix (map (fst \<circ> geocode_address gm) (address_list depot stops))")
    case (Inl e)
    with assms False show ?thesis
      by (simp add: lite_vehicle_def case_prod_unfold lite_coords_value)
  next
    case (Inr m)
    have "\<exists>l a s. route_paths st' = route_paths st @ [l]
           \<and> route_addresses st' = route_addresses st @ [a]
           \<and> route_stats st' = route_stats st @ [s]"
      using assms
      by (auto simp: lite_vehicle_solved [OF two Inr] record_route_def lite_coords_frame
            split: sum.splits option.splits list.splits dest!: render_route_entry)
    with False show ?thesis by simp
  qed
qed

lemma lite_vehicles_entries:
  assumes "lite_vehicles solve_vrp gm py_round rtd depot fleet st = (None, st')"
  shows "\<exists>ls as ss. route_paths st' = route_paths st @ ls
           \<and> route_addresses st' = route_addresses st @ as
           \<and> route_stats st' = route_stats st @ ss
           \<and> length ls = length fleet \<and> length as = length fleet \<and> length ss = length fleet
           \<and> (\<forall>v < length fleet. length (address_list depot (fleet ! v)) < 2
                 \<longrightarrow> ls ! v = [] \<and> as ! v = []
                   \<and> ss ! v = \<lparr>distance = 0, time = 0, score = Underused\<rparr>)"
  using assms
proof (induction fleet arbitrary: st)
  case Nil
  then show ?case by simp
next
  case (Cons x xs)
  from Cons.prems obtain st1
    where step: "lite_vehicle solve_vrp gm py_round rtd depot x st = (None, st1)"
    and rest: "lite_vehicles solve_vrp gm py_round rtd depot xs st1 = (None, st')"
    by (auto split: prod.splits option.splits)
  from lite_vehicle_entry [OF step] obtain l a s where
    e: "route_paths st1 = route_paths st @ [l]" "route_addresses st1 = route_addresses st @ [a]"
       "route_stats st1 = route_stats st @ [s]"
       "length (address_list depot x) < 2
          \<longrightarrow> l = [] \<and> a = [] \<and> s = \<lparr>distance = 0, time = 0, score = Underused\<rparr>"
    by blast
  from Cons.IH [OF rest] obtain ls as ss where
    r: "route_paths st' = route_paths st1 @ ls" "route_addresses st' = route_addresses st1 @ as"
       "route_stats st' = route_stats st1 @ ss"
       "length ls = length xs" "length as = length xs" "length ss = length xs"
       "\<forall>v < length xs. length (address_list depot (xs ! v)) < 2
                 \<longrightarrow> ls ! v = [] \<and> as ! v = []
                   \<and> ss ! v = \<lparr>distance = 0, time = 0, score = Underused\<rparr>"
    by blast
  have all: "\<forall>v < length (x # xs). length (address_list depot ((x # xs) ! v)) < 2
                 \<longrightarrow> (l # ls) ! v = [] \<and> (a # as) ! v = []
                   \<and> (s # ss) ! v = \<lparr>distance = 0, time = 0, score = Underused\<rparr>"
  proof (intro allI impI)
    fix v assume v: "v < length (x # xs)"
      and short: "length (address_list depot ((x # xs) ! v)) < 2"
    show "(l # ls) ! v = [] \<and> (a # as) ! v = []
            \<and> (s # ss) ! v = \<lparr>distance = 0, time = 0, score = Underused\<rparr>"
    proof (cases v)
      case 0
      with short e(4) show ?thesis by simp
    next
      case (Suc w)
      with v short r(7) show ?thesis by simp
    qed
  qed
  show ?case
    by (rule exI [of _ "l # ls"], rule exI [of _ "a # as"], rule exI [of _ "s # ss"])
      (insert e r all, simp)
qed

text \<open>
  Claim C2. For a vehicle of Lite whose address list is shorter than 2 (the depot
  alone: no stop, or only stops with a blank address) the handler records an empty
  route, an empty address list and the figures distance 0 and time 0 (with the score
  "Underused"), and the solver is not called: the trace of calls is unchanged, whatever
  the solver and the geocoder are. In a run of the handler that ends normally, the
  entries recorded at the position of such a vehicle are these.
\<close>

theorem vehicle_without_stops:
  "(length (address_list depot_address stops) < 2 \<longrightarrow>
     lite_vehicle solve_vrp gm py_round return_to_depot depot_address stops st =
       (None,
        st\<lparr>route_paths := route_paths st @ [[]],
           route_addresses := route_addresses st @ [[]],
           route_stats := route_stats st @ [\<lparr>distance = 0, time = 0, score = Underused\<rparr>]\<rparr>)
     \<and> solver_calls (snd (lite_vehicle solve_vrp gm py_round return_to_depot depot_address stops st))
         = solver_calls st)
   \<and> (lite_optimize_now solve_vrp gm py_round return_to_depot depot_address fleet = (None, st')
       \<and> v < length fleet \<and> length (address_list depot_address (fleet ! v)) < 2
     \<longrightarrow> route_paths st' ! v = [] \<and> route_addresses st' ! v = []
       \<and> route_stats st' ! v = \<lparr>distance = 0, time = 0, score = Underused\<rparr>)"
proof (intro conjI impI)
  assume "length (address_list depot_address stops) < 2"
  then show "lite_vehicle solve_vrp gm py_round return_to_depot depot_address stops st =
       (None,
        st\<lparr>route_paths := route_paths st @ [[]],
           route_addresses := route_addresses st @ [[]],
           route_stats := route_stats st @ [\<lparr>distance = 0, time = 0, score = Underused\<rparr>]\<rparr>)"
    and "solver_calls (snd (lite_vehicle solve_vrp gm py_round return_to_depot depot_address stops st))
         = solver_calls st"
    by (simp_all add: lite_vehicle_no_stops record_route_def)
next
  assume a: "lite_optimize_now solve_vrp gm py_round return_to_depot depot_address fleet = (None, st')
       \<and> v < length fleet \<and> length (address_list depot_address (fleet ! v)) < 2"
  then obtain st1 where
    run: "lite_vehicles solve_vrp gm py_round return_to_depot depot_address fleet
            (lite_start depot_address) = (None, st1)"
    and st': "st' = st1\<lparr>messages := messages st1 @ [Success ''Routes optimized!'']\<rparr>"
    by (auto simp: lite_optimize_now_def split: prod.splits option.splits)
  from lite_vehicles_entries [OF run] a
  have "route_paths st1 ! v = [] \<and> route_addresses st1 ! v = []
       \<and> route_stats st1 ! v = \<lparr>distance = 0, time = 0, score = Underused\<rparr>"
    by (auto simp: lite_start_def)
  with st' show "route_paths st' ! v = []" and "route_addresses st' ! v = []"
    and "route_stats st' ! v = \<lparr>distance = 0, time = 0, score = Underused\<rparr>"
    by simp_all
qed

theorem vehicle_without_stops_witness:
  "length (address_list ''D'' [(''Stop 1'', ''  '')]) < 2
   \<and> lite_vehicle (\<lambda>m k. Inr (Some [[0, 1, 0]]))
        (\<lambda>a. if a = ''D'' then Inr [(0, 0)] else Inr [(3, 4)])
        (\<lambda>x n. real_of_int \<lfloor>x * 10 ^ n + 1 / 2\<rfloor> / 10 ^ n) True ''D'' [(''Stop 1'', ''  '')]
        (lite_start ''D'') =
       (None,
        \<lparr>solver_calls = [], messages = [], route_paths = [[]], route_addresses = [[]],
         route_stats = [\<lparr>distance = 0, time = 0, score = Underused\<rparr>],
         geocode_cache = [''D'']\<rparr>)
   \<and> fst (lite_optimize_now (\<lambda>m k. Inr (Some [[0, 1, 0]]))
        (\<lambda>a. if a = ''D'' then Inr [(0, 0)] else Inr [(3, 4)])
        (\<lambda>x n. real_of_int \<lfloor>x * 10 ^ n + 1 / 2\<rfloor> / 10 ^ n) True ''D''
        [[], [(''Stop 1'', ''A'')]]) = None
   \<and> route_stats (snd (lite_optimize_now (\<lambda>m k. Inr (Some [[0, 1, 0]]))
        (\<lambda>a. if a = ''D'' then Inr [(0, 0)] else Inr [(3, 4)])
        (\<lambda>x n. real_of_int \<lfloor>x * 10 ^ n + 1 / 2\<rfloor> / 10 ^ n) True ''D''
        [[], [(''Stop 1'', ''A'')]])) ! 0 = \<lparr>distance = 0, time = 0, score = Underused\<rparr>"
  using vehicle_without_stops
    [where depot_address = "''D''" and stops = "[(''Stop 1'', ''  '')]"
       and solve_vrp = "\<lambda>m k. Inr (Some [[0, 1, 0]])"
       and gm = "\<lambda>a. if a = ''D'' then Inr [(0, 0)] else Inr [(3, 4)]"
       and py_round = "\<lambda>x n. real_of_int \<lfloor>x * 10 ^ n + 1 / 2\<rfloor> / 10 ^ n"
       and return_to_depot = True and st = "lite_start ''D''"
       and fleet = "[[], [(''Stop 1'', ''A'')]]" and v = 0
       and st' = "snd (lite_optimize_now (\<lambda>m k. Inr (Some [[0, 1, 0]]))
        (\<lambda>a. if a = ''D'' then Inr [(0, 0)] else Inr [(3, 4)])
        (\<lambda>x n. real_of_int \<lfloor>x * 10 ^ n + 1 / 2\<rfloor> / 10 ^ n) True ''D''
        [[], [(''Stop 1'', ''A'')]])"]
  by (simp add: address_list_nonblank blank_def isspace_def lite_start_def example_lite_fleet)

subsection \<open>Errors of a solve\<close>

lemma solution_validator_Inl:
  "solution_validator pm routes = Inl e \<Longrightarrow> e = InternalInvariantViolation"
  by (simp add: solution_validator_def split: if_splits)

lemma solution_validator_Inr:
  assumes "solution_validator pm routes = Inr validated"
  shows "validated = routes"
    and "\<forall>node. 0 < node \<and> node < length (distance_matrix pm)
           \<longrightarrow> count_list (concat routes) node = 1"
    and "\<forall>r \<in> set routes. r \<noteq> [] \<and> hd r = 0 \<and> last r = 0"
    and "\<forall>caps. vehicle_capacities pm = Some caps
           \<longrightarrow> length caps = length routes
             \<and> (\<forall>v < length routes. route_load pm (routes ! v) \<le> caps ! v)"
proof -
  from assms have ok:
    "list_all (\<lambda>node. count_list (concat routes) node = 1) [1..<length (distance_matrix pm)]"
    "list_all (\<lambda>r. r \<noteq> [] \<and> hd r = 0 \<and> last r = 0) routes"
    "case vehicle_capacities pm of
       None \<Rightarrow> True
     | Some caps \<Rightarrow> list_all2 (\<lambda>r c. route_load pm r \<le> c) routes caps"
    and v: "validated = routes"
    by (simp_all add: solution_validator_def split: if_splits)
  show "validated = routes" by (rule v)
  from ok(1) show "\<forall>node. 0 < node \<and> node < length (distance_matrix pm)
           \<longrightarrow> count_list (concat routes) node = 1"
    by (auto simp: list_all_iff)
  from ok(2) show "\<forall>r \<in> set routes. r \<noteq> [] \<and> hd r = 0 \<and> last r = 0"
    by (simp add: list_all_iff)
  from ok(3) show "\<forall>caps. vehicle_capacities pm = Some caps
           \<longrightarrow> length caps = length routes
             \<and> (\<forall>v < length routes. route_load pm (routes ! v) \<le> caps ! v)"
    by (auto simp: list_all2_conv_all_nth)
qed

text \<open>
  Claim C4. In the solve of the spec every error of a stage is the result of the call:
  an error of the Problem Model or of the Route Constructor is returned as it is, and a
  solution that fails a check of the Validator gives \<open>InternalInvariantViolation\<close>. No
  error is turned into a result, and a call that returns a result returns the assembly
  of the whole solution the Optimizer produced, which has passed the Validator: every
  non-depot node is in exactly one route exactly once, every route begins and ends at
  the depot, and every route's load is within the capacity of its vehicle. So a call
  yields either an error or a validated solution, whatever the Problem Model, the
  Constructor, the Optimizer and the Assembler compute.

  What the two pages do when the solve they call fails is layered on top of this, as
  section 7 says of the caller: Pro shows a warning that names the route and goes on
  with the next one (\<open>pro_route_failed\<close>), Lite lets an exception end the handler and
  records "No route" for an answer without routes (\<open>lite_vehicle_solved\<close>).
\<close>

theorem solve_error_or_validated:
  "(problem_model_of input = Inl e
      \<longrightarrow> solve problem_model_of route_constructor local_search result_assembler input = Inl e)
   \<and> (problem_model_of input = Inr pm \<and> route_constructor pm = Inl e
      \<longrightarrow> solve problem_model_of route_constructor local_search result_assembler input = Inl e)
   \<and> (problem_model_of input = Inr pm \<and> route_constructor pm = Inr initial
       \<and> solution_validator pm (local_search pm initial) = Inl e
      \<longrightarrow> e = InternalInvariantViolation
        \<and> solve problem_model_of route_constructor local_search result_assembler input
            = Inl InternalInvariantViolation)
   \<and> (solve problem_model_of route_constructor local_search result_assembler input = Inr result
      \<longrightarrow> (\<exists>pm initial routes.
             problem_model_of input = Inr pm \<and> route_constructor pm = Inr initial
             \<and> routes = local_search pm initial
             \<and> solution_validator pm routes = Inr routes
             \<and> result = result_assembler pm routes
             \<and> (\<forall>node. 0 < node \<and> node < length (distance_matrix pm)
                   \<longrightarrow> count_list (concat routes) node = 1)
             \<and> (\<forall>r \<in> set routes. r \<noteq> [] \<and> hd r = 0 \<and> last r = 0)
             \<and> (\<forall>caps. vehicle_capacities pm = Some caps
                   \<longrightarrow> length caps = length routes
                     \<and> (\<forall>v < length routes. route_load pm (routes ! v) \<le> caps ! v))))
   \<and> (solve problem_model_of route_constructor local_search result_assembler input = Inl e
      \<longrightarrow> problem_model_of input = Inl e
        \<or> (\<exists>pm. problem_model_of input = Inr pm \<and> route_constructor pm = Inl e)
        \<or> (\<exists>pm initial. problem_model_of input = Inr pm \<and> route_constructor pm = Inr initial
              \<and> solution_validator pm (local_search pm initial) = Inl e))"
proof (intro conjI impI)
  assume "problem_model_of input = Inl e"
  then show "solve problem_model_of route_constructor local_search result_assembler input = Inl e"
    by (simp add: solve_def)
next
  assume "problem_model_of input = Inr pm \<and> route_constructor pm = Inl e"
  then show "solve problem_model_of route_constructor local_search result_assembler input = Inl e"
    by (simp add: solve_def)
next
  assume a: "problem_model_of input = Inr pm \<and> route_constructor pm = Inr initial
       \<and> solution_validator pm (local_search pm initial) = Inl e"
  then have v: "solution_validator pm (local_search pm initial) = Inl e" by simp
  then show e: "e = InternalInvariantViolation"
    by (rule solution_validator_Inl)
  from a
  show "solve problem_model_of route_constructor local_search result_assembler input
            = Inl InternalInvariantViolation"
    by (simp add: solve_def e)
next
  assume "solve problem_model_of route_constructor local_search result_assembler input = Inr result"
  then obtain pm initial validated where pm: "problem_model_of input = Inr pm"
    and initial: "route_constructor pm = Inr initial"
    and validated: "solution_validator pm (local_search pm initial) = Inr validated"
    and result: "result = result_assembler pm validated"
    by (auto simp: solve_def split: sum.splits)
  note checks = solution_validator_Inr [OF validated]
  show "\<exists>pm initial routes.
             problem_model_of input = Inr pm \<and> route_constructor pm = Inr initial
             \<and> routes = local_search pm initial
             \<and> solution_validator pm routes = Inr routes
             \<and> result = result_assembler pm routes
             \<and> (\<forall>node. 0 < node \<and> node < length (distance_matrix pm)
                   \<longrightarrow> count_list (concat routes) node = 1)
             \<and> (\<forall>r \<in> set routes. r \<noteq> [] \<and> hd r = 0 \<and> last r = 0)
             \<and> (\<forall>caps. vehicle_capacities pm = Some caps
                   \<longrightarrow> length caps = length routes
                     \<and> (\<forall>v < length routes. route_load pm (routes ! v) \<le> caps ! v))"
  proof (intro exI conjI)
    show "problem_model_of input = Inr pm" by (rule pm)
    show "route_constructor pm = Inr initial" by (rule initial)
    show "local_search pm initial = local_search pm initial" by (rule refl)
    show "solution_validator pm (local_search pm initial) = Inr (local_search pm initial)"
      using validated checks(1) by simp
    show "result = result_assembler pm (local_search pm initial)"
      using result checks(1) by simp
    show "\<forall>node. 0 < node \<and> node < length (distance_matrix pm)
                   \<longrightarrow> count_list (concat (local_search pm initial)) node = 1"
      by (rule checks(2))
    show "\<forall>r \<in> set (local_search pm initial). r \<noteq> [] \<and> hd r = 0 \<and> last r = 0"
      by (rule checks(3))
    show "\<forall>caps. vehicle_capacities pm = Some caps
                   \<longrightarrow> length caps = length (local_search pm initial)
                     \<and> (\<forall>v < length (local_search pm initial).
                           route_load pm (local_search pm initial ! v) \<le> caps ! v)"
      by (rule checks(4))
  qed
next
  assume "solve problem_model_of route_constructor local_search result_assembler input = Inl e"
  then show "problem_model_of input = Inl e
        \<or> (\<exists>pm. problem_model_of input = Inr pm \<and> route_constructor pm = Inl e)
        \<or> (\<exists>pm initial. problem_model_of input = Inr pm \<and> route_constructor pm = Inr initial
              \<and> solution_validator pm (local_search pm initial) = Inl e)"
    by (auto simp: solve_def split: sum.splits)
qed

text \<open>
  A solve over the matrix of the spec's first scenario, \<open>[[0,2,9],[2,0,1],[9,1,0]]\<close>, the
  two stops with demand 5 each and one vehicle: a Problem Model that refuses a vehicle
  count below 1, a Constructor that answers \<open>[0, 1, 2, 0]\<close>, an Optimizer that changes
  nothing, and an Assembler that returns the node indices. With capacity 10 the route
  is returned; a vehicle count of 0, a Constructor that fails, an Optimizer that loses
  stop 2 and a capacity of 9 each give the error and no route.
\<close>

theorem solve_error_or_validated_witness:
  "solve (\<lambda>(m, k, caps). if k < (1 :: int) then Inl InvalidParameter
            else Inr \<lparr>distance_matrix = m, stop_demands = [5, 5], vehicle_count = nat k,
                      vehicle_capacities = Some caps\<rparr>)
       (\<lambda>pm. Inr [[0, 1, 2, 0]]) (\<lambda>pm routes. routes) (\<lambda>pm routes. map (map int) routes)
       ([[0, 2, 9], [2, 0, 1], [9, 1, 0]], 1, [10]) = Inr [[0, 1, 2, 0]]
   \<and> solve (\<lambda>(m, k, caps). if k < (1 :: int) then Inl InvalidParameter
            else Inr \<lparr>distance_matrix = m, stop_demands = [5, 5], vehicle_count = nat k,
                      vehicle_capacities = Some caps\<rparr>)
       (\<lambda>pm. Inr [[0, 1, 2, 0]]) (\<lambda>pm routes. routes) (\<lambda>pm routes. map (map int) routes)
       ([[0, 2, 9], [2, 0, 1], [9, 1, 0]], 0, [10]) = Inl InvalidParameter
   \<and> solve (\<lambda>(m, k, caps). if k < (1 :: int) then Inl InvalidParameter
            else Inr \<lparr>distance_matrix = m, stop_demands = [5, 5], vehicle_count = nat k,
                      vehicle_capacities = Some caps\<rparr>)
       (\<lambda>pm. Inl (InfeasibleDemand 2)) (\<lambda>pm routes. routes) (\<lambda>pm routes. map (map int) routes)
       ([[0, 2, 9], [2, 0, 1], [9, 1, 0]], 1, [10]) = Inl (InfeasibleDemand 2)
   \<and> solve (\<lambda>(m, k, caps). if k < (1 :: int) then Inl InvalidParameter
            else Inr \<lparr>distance_matrix = m, stop_demands = [5, 5], vehicle_count = nat k,
                      vehicle_capacities = Some caps\<rparr>)
       (\<lambda>pm. Inr [[0, 1, 2, 0]]) (\<lambda>pm routes. [[0, 1, 0]]) (\<lambda>pm routes. map (map int) routes)
       ([[0, 2, 9], [2, 0, 1], [9, 1, 0]], 1, [10]) = Inl InternalInvariantViolation
   \<and> solve (\<lambda>(m, k, caps). if k < (1 :: int) then Inl InvalidParameter
            else Inr \<lparr>distance_matrix = m, stop_demands = [5, 5], vehicle_count = nat k,
                      vehicle_capacities = Some caps\<rparr>)
       (\<lambda>pm. Inr [[0, 1, 2, 0]]) (\<lambda>pm routes. routes) (\<lambda>pm routes. map (map int) routes)
       ([[0, 2, 9], [2, 0, 1], [9, 1, 0]], 1, [9]) = Inl InternalInvariantViolation
   \<and> route_load \<lparr>distance_matrix = [[0, 2, 9], [2, 0, 1], [9, 1, 0]], stop_demands = [5, 5],
          vehicle_count = 1, vehicle_capacities = Some [10]\<rparr> [0, 1, 2, 0] = 10"
proof -
  let ?P = "\<lambda>(m :: matrix, k :: int, caps :: real list). if k < 1 then Inl InvalidParameter
            else Inr \<lparr>distance_matrix = m, stop_demands = [5, 5], vehicle_count = nat k,
                      vehicle_capacities = Some caps\<rparr>"
  let ?m = "[[0, 2, 9], [2, 0, 1], [9, 1, 0]] :: matrix"
  let ?pm = "\<lambda>caps. \<lparr>distance_matrix = ?m, stop_demands = [5, 5], vehicle_count = 1,
          vehicle_capacities = Some caps\<rparr>"
  let ?A = "\<lambda>(pm :: problem_model) routes. map (map int) routes"
  show ?thesis
    using solve_error_or_validated
        [where problem_model_of = ?P and route_constructor = "\<lambda>pm. Inr [[0, 1, 2, 0]]"
           and local_search = "\<lambda>pm routes. routes" and result_assembler = ?A
           and input = "(?m, 1, [10])" and result = "[[0, 1, 2, 0]]"]
      solve_error_or_validated
        [where problem_model_of = ?P and route_constructor = "\<lambda>pm. Inr [[0, 1, 2, 0]]"
           and local_search = "\<lambda>pm routes. routes" and result_assembler = ?A
           and input = "(?m, 0, [10])" and e = InvalidParameter]
      solve_error_or_validated
        [where problem_model_of = ?P and route_constructor = "\<lambda>pm. Inl (InfeasibleDemand 2)"
           and local_search = "\<lambda>pm routes. routes" and result_assembler = ?A
           and input = "(?m, 1, [10])" and e = "InfeasibleDemand 2" and pm = "?pm [10]"]
      solve_error_or_validated
        [where problem_model_of = ?P and route_constructor = "\<lambda>pm. Inr [[0, 1, 2, 0]]"
           and local_search = "\<lambda>pm routes. [[0, 1, 0]]" and result_assembler = ?A
           and input = "(?m, 1, [10])" and e = InternalInvariantViolation and pm = "?pm [10]"
           and initial = "[[0, 1, 2, 0]]"]
      solve_error_or_validated
        [where problem_model_of = ?P and route_constructor = "\<lambda>pm. Inr [[0, 1, 2, 0]]"
           and local_search = "\<lambda>pm routes. routes" and result_assembler = ?A
           and input = "(?m, 1, [9])" and e = InternalInvariantViolation and pm = "?pm [9]"
           and initial = "[[0, 1, 2, 0]]"]
    by (simp add: solve_def solution_validator_def route_load_def demand_def upt_rec)
qed


end
